theory Spec2Isabelle
  imports Main "HOL-Library.Multiset"
begin

section \<open>The dataset mapper of oneformer\_irseg\<close>

text \<open>
  A shallow embedding of
  \<^verbatim>\<open>datasets/custom_datasets/instance_coco_custom_dataset_mapper.py\<close>.
  The file is glue code over numpy, torch, OpenCV, pycocotools and detectron2. The control
  flow, the bookkeeping and every raise of the file itself are modelled here; the calls into
  those libraries whose results depend on pixel data or on files are fields of the record
  \<open>env\<close>, each returning an error or a value, so that every theorem holds for any
  behaviour of the libraries.
\<close>

subsection \<open>Errors\<close>

datatype error =
    KeyError string
  | IndexError
  | ValueError
  | TypeError
  | AttributeError string
  | AssertionError
  | UnboundLocalError string
  | RuntimeError
  | LibraryError string

text \<open>Sequencing of fallible steps: the first exception ends the computation.\<close>

definition ebind :: "error + 'a \<Rightarrow> ('a \<Rightarrow> error + 'b) \<Rightarrow> error + 'b" where
  "ebind m f = (case m of Inl e \<Rightarrow> Inl e | Inr x \<Rightarrow> f x)"

fun emap :: "('a \<Rightarrow> error + 'b) \<Rightarrow> 'a list \<Rightarrow> error + 'b list" where
  "emap f [] = Inr []"
| "emap f (x # xs) =
     (case f x of Inl e \<Rightarrow> Inl e
      | Inr y \<Rightarrow> (case emap f xs of Inl e \<Rightarrow> Inl e | Inr ys \<Rightarrow> Inr (y # ys)))"

text \<open>
  Indexing a Python list with an int: \<open>xs[i]\<close> for \<open>0 \<le> i < len\<close>, \<open>xs[len + i]\<close> for
  \<open>-len \<le> i < 0\<close>, and IndexError for every other index.
\<close>

definition py_index :: "'a list \<Rightarrow> int \<Rightarrow> error + 'a" where
  "py_index xs i =
     (if 0 \<le> i \<and> i < int (length xs) then Inr (xs ! nat i)
      else if i < 0 \<and> - int (length xs) \<le> i then Inr (xs ! nat (int (length xs) + i))
      else Inl IndexError)"

subsection \<open>Arrays\<close>

text \<open>
  A numpy array or a torch tensor: which library holds it, its shape, its element type and
  its elements in row-major order. Only the operations the file calls are modelled.
\<close>

datatype lib = Numpy | Torch

datatype dtype = UInt8 | Bool | Int64 | Float64

datatype array = Array (kind: lib) (shape: "nat list") (dtype: dtype) (elems: "int list")

definition ndim :: "array \<Rightarrow> nat" where
  "ndim a = length (shape a)"

text \<open>\<^verbatim>\<open>torch.zeros(shape, dtype=...)\<close> and \<^verbatim>\<open>np.ones(shape)\<close>.\<close>

definition torch_zeros :: "nat list \<Rightarrow> dtype \<Rightarrow> array" where
  "torch_zeros s dt = Array Torch s dt (replicate (prod_list s) 0)"

definition np_ones :: "nat list \<Rightarrow> array" where
  "np_ones s = Array Numpy s Float64 (replicate (prod_list s) 1)"

text \<open>\<^verbatim>\<open>mask[..., None]\<close>: a new last axis of size 1.\<close>

definition add_last_axis :: "array \<Rightarrow> array" where
  "add_last_axis a = Array (kind a) (shape a @ [1]) (dtype a) (elems a)"

text \<open>\<^verbatim>\<open>torch.as_tensor(a, dtype=torch.uint8)\<close>.\<close>

definition as_tensor_uint8 :: "array \<Rightarrow> array" where
  "as_tensor_uint8 a = Array Torch (shape a) UInt8 (map (\<lambda>x. x mod 256) (elems a))"

text \<open>\<^verbatim>\<open>torch.as_tensor(a)\<close> and \<^verbatim>\<open>t.cpu().numpy()\<close>: the same data in the other library.\<close>

definition as_tensor :: "array \<Rightarrow> array" where
  "as_tensor a = Array Torch (shape a) (dtype a) (elems a)"

definition to_numpy :: "array \<Rightarrow> array" where
  "to_numpy a = Array Numpy (shape a) (dtype a) (elems a)"

text \<open>
  \<^verbatim>\<open>t.any(dim=2)\<close>: axis 2 is reduced by disjunction; a tensor of fewer than three axes has
  no axis 2 and torch raises IndexError. With \<open>outer\<close> the product of the first two axes,
  \<open>k\<close> the reduced axis and \<open>inner\<close> the product of the rest, the element at
  \<open>(o, t)\<close> of the result is 1 iff some \<open>j < k\<close> has a non-zero element at
  \<open>(o, j, t)\<close>.
\<close>

definition any_dim2 :: "array \<Rightarrow> error + array" where
  "any_dim2 a =
     (if ndim a < 3 then Inl IndexError
      else let outer = prod_list (take 2 (shape a));
               k = shape a ! 2;
               inner = prod_list (drop 3 (shape a))
           in Inr (Array (kind a) (take 2 (shape a) @ drop 3 (shape a)) (dtype a)
                 (map (\<lambda>i. if (\<exists>j \<in> set [0..<k].
                                   elems a ! (((i div inner) * k + j) * inner + i mod inner) \<noteq> 0)
                            then 1 else 0)
                    [0..<outer * inner])))"

text \<open>\<^verbatim>\<open>torch.stack(ts, dim=0)\<close>: all tensors must have one shape, else RuntimeError.\<close>

definition torch_stack :: "array list \<Rightarrow> error + array" where
  "torch_stack ts =
     (case ts of
        [] \<Rightarrow> Inl RuntimeError
      | t # rest \<Rightarrow>
          if (\<forall>u \<in> set rest. shape u = shape t)
          then Inr (Array Torch (length ts # shape t) (dtype t) (concat (map elems ts)))
          else Inl RuntimeError)"

text \<open>\<^verbatim>\<open>np.expand_dims(a, axis=0)\<close>: a numpy array with a new first axis of size 1.\<close>

definition np_expand_dims0 :: "array \<Rightarrow> array" where
  "np_expand_dims0 a = Array Numpy (1 # shape a) (dtype a) (elems a)"

text \<open>\<^verbatim>\<open>a.squeeze()\<close> drops every axis of size 1; \<^verbatim>\<open>a.astype(np.uint8)\<close>.\<close>

definition squeeze :: "array \<Rightarrow> array" where
  "squeeze a = Array (kind a) (filter (\<lambda>d. d \<noteq> 1) (shape a)) (dtype a) (elems a)"

definition astype_uint8 :: "array \<Rightarrow> array" where
  "astype_uint8 a = Array (kind a) (shape a) UInt8 (map (\<lambda>x. x mod 256) (elems a))"

text \<open>\<^verbatim>\<open>~ a.astype(bool)\<close>: the element-wise negation of "non-zero".\<close>

definition not_astype_bool :: "array \<Rightarrow> array" where
  "not_astype_bool a =
     Array (kind a) (shape a) Bool (map (\<lambda>x. if x \<noteq> 0 then 0 else 1) (elems a))"

text \<open>
  \<^verbatim>\<open>a.transpose(2, 0, 1)\<close> needs exactly three axes (ValueError otherwise); the element at
  \<open>(c, i, j)\<close> of the result is the element at \<open>(i, j, c)\<close> of the array.
\<close>

definition transpose_201 :: "array \<Rightarrow> error + array" where
  "transpose_201 a =
     (case shape a of
        [h, w, c] \<Rightarrow>
          Inr (Array (kind a) [c, h, w] (dtype a)
                 (map (\<lambda>i. elems a ! ((i mod (h * w)) * c + i div (h * w))) [0..<c * h * w]))
      | _ \<Rightarrow> Inl ValueError)"

subsection \<open>Annotations, instances and dataset records\<close>

text \<open>
  Numbers (Python floats, numpy scalars) are a type variable \<open>'n\<close>: the file only moves
  them around, converts them with \<^verbatim>\<open>float\<close> and subtracts them, so no floating-point
  arithmetic is fixed by the model.

  One element of a \<^verbatim>\<open>"segmentation"\<close> list, as \<^verbatim>\<open>convert_coco_poly_to_mask_\<close> tells
  them apart with \<^verbatim>\<open>isinstance\<close>: a list of floats (the empty list is one: \<^verbatim>\<open>all\<close> of
  nothing is true), a list of lists, a one-dimensional numpy array, or anything else (a
  list with an int in it, a string, ...).
\<close>

datatype 'n polygons =
    FloatList "'n list"
  | ListOfLists "'n list list"
  | NdArray "'n list"
  | Unexpected

datatype box_mode = XYXY_ABS | XYWH_ABS | XYXY_REL | XYWH_REL | XYWHA_ABS

text \<open>
  An annotation dict of the Detectron2 dataset format. \<^verbatim>\<open>"iscrowd"\<close> and \<^verbatim>\<open>"keypoints"\<close>
  are the keys the file reads with a default or pops, so they are optional.
\<close>

record 'n anno =
  iscrowd :: "int option"
  bbox :: "'n list"
  category_id :: int
  segmentation :: "'n polygons list"
  bbox_mode :: box_mode
  keypoints :: "'n list option"

text \<open>
  \<^verbatim>\<open>Instances\<close>: the image size and the fields that have been set. \<^verbatim>\<open>gt_masks\<close> is a
  \<^verbatim>\<open>PolygonMasks\<close> (per instance a list of polygons), a \<^verbatim>\<open>BitMasks\<close>, or the plain tensor the
  file stores there at the end.
\<close>

datatype 'n masks = PolygonMasks "'n list list list" | BitMasks array | MaskTensor array

record 'n instances =
  image_size :: "nat \<times> nat"
  gt_boxes :: "'n list list option"
  gt_classes :: "int list option"
  gt_masks :: "'n masks option"

text \<open>The values a dataset record holds under its keys.\<close>

datatype 'n val =
    VNone
  | VStr string
  | VInt int
  | VNum 'n
  | VArray array
  | VAnnos "'n anno list"
  | VInstances "'n instances"
  | VShape "nat list"
  | VTexts "string list"
  | VInts "int list"

type_synonym 'n dict = "string \<rightharpoonup> 'n val"

text \<open>
  The store of dataset records: every address holds a dict (the empty one until it is
  allocated), and \<open>next_addr\<close> is the first address not yet allocated.
\<close>

record 'n store =
  objs :: "nat \<Rightarrow> 'n dict"
  next_addr :: nat

subsection \<open>Configuration and augmentations\<close>

record 'n cfg =
  INPUT_IMAGE_SIZE :: int
  INPUT_MIN_SCALE :: 'n
  INPUT_MAX_SCALE :: 'n
  INPUT_RANDOM_FLIP :: string
  INPUT_FORMAT :: string
  INPUT_TASK_SEQ_LEN :: int
  INPUT_MAX_SEQ_LEN :: int
  DATASETS_TRAIN :: "string list"
  MODEL_ONE_FORMER_NUM_OBJECT_QUERIES :: int
  MODEL_TEXT_ENCODER_N_CTX :: int

text \<open>The augmentation objects the file constructs, with the arguments it passes.\<close>

datatype 'n augmentation =
    RandomFlip (horizontal: bool) (vertical: bool)
  | ResizeScale (min_scale: 'n) (max_scale: 'n) (target_height: int) (target_width: int)
  | FixedSizeCrop (crop_size: "int \<times> int")

record metadata =
  thing_dataset_id_to_contiguous_id :: "(int \<times> int) list"
  thing_classes :: "string list"

subsection \<open>The library calls\<close>

text \<open>
  \<open>'rle\<close> is pycocotools' run-length encoding, \<open>'tfm\<close> the \<^verbatim>\<open>TransformList\<close> that
  \<^verbatim>\<open>T.apply_transform_gens\<close> returns. \<open>bigcopypaste\<close> is the
  \<^verbatim>\<open>BigCopyPasteAugmentation\<close> object the constructor builds; its \<^verbatim>\<open>label_dict\<close> argument
  and result, a dict with the one key \<^verbatim>\<open>"labels"\<close>, is modelled by the label list.
\<close>

record ('n, 'rle, 'tfm) env =
  py_float :: "'n \<Rightarrow> 'n"
  frPyObjects :: "'n list list \<Rightarrow> nat \<Rightarrow> nat \<Rightarrow> error + 'rle"
  decode :: "'rle \<Rightarrow> error + array"
  cv2_resize :: "array \<Rightarrow> nat \<times> nat \<Rightarrow> error + array"
  findContours :: "array \<Rightarrow> error + ('n \<times> 'n) list list"
  read_image :: "'n val \<Rightarrow> string \<Rightarrow> error + array"
  check_image_size :: "'n dict \<Rightarrow> array \<Rightarrow> error + 'n dict"
  bigcopypaste :: "array \<Rightarrow> array list \<Rightarrow> 'n list list \<Rightarrow> int list
                     \<Rightarrow> error + array \<times> array list \<times> 'n list list \<times> int list"
  apply_transform_gens :: "'n augmentation list \<Rightarrow> array \<Rightarrow> error + array \<times> 'tfm"
  apply_segmentation :: "'tfm \<Rightarrow> array \<Rightarrow> error + array"
  transform_instance_annotations :: "'n anno \<Rightarrow> 'tfm \<Rightarrow> nat list \<Rightarrow> error + 'n anno"
  annotations_to_instances :: "'n anno list \<Rightarrow> nat list \<Rightarrow> error + 'n instances"
  get_bounding_boxes :: "'n masks \<Rightarrow> error + 'n list list"
  filter_empty_instances :: "'n instances \<Rightarrow> error + 'n instances"

subsection \<open>\<^verbatim>\<open>convert_coco_poly_to_mask\<close>\<close>

text \<open>
  The five lines both converters run on a list of polygons: encode, decode, add a channel
  axis to a two-dimensional result, convert to a uint8 tensor, reduce the channel axis.
\<close>

definition poly_mask :: "('n, 'rle, 'tfm) env \<Rightarrow> 'n list list \<Rightarrow> nat \<Rightarrow> nat \<Rightarrow> error + array" where
  "poly_mask env polygons height width =
     ebind (frPyObjects env polygons height width) (\<lambda>rles.
     ebind (decode env rles) (\<lambda>msk.
       let msk = (if length (shape msk) < 3 then add_last_axis msk else msk);
           msk = as_tensor_uint8 msk
       in any_dim2 msk))"

definition convert_coco_poly_to_mask ::
  "('n, 'rle, 'tfm) env \<Rightarrow> 'n list list list \<Rightarrow> nat \<Rightarrow> nat \<Rightarrow> error + array" where
  "convert_coco_poly_to_mask env segmentations height width =
     ebind (emap (\<lambda>polygons. poly_mask env polygons height width) segmentations) (\<lambda>masks.
       if masks \<noteq> [] then torch_stack masks
       else Inr (torch_zeros [0, height, width] UInt8))"

subsection \<open>\<^verbatim>\<open>convert_coco_poly_to_mask_\<close>\<close>

text \<open>A name cannot end in an underscore here, so the function is \<open>convert_coco_poly_to_mask'\<close>.\<close>

text \<open>
  The branch on the format of one element: what \<^verbatim>\<open>masks_\<close> (here \<open>masks'\<close>) is afterwards, or the
  ValueError of the last branch.
\<close>

definition add_polygons :: "'n list list \<Rightarrow> 'n polygons \<Rightarrow> error + 'n list list" where
  "add_polygons masks' polygons =
     (case polygons of
        FloatList ps \<Rightarrow> Inr (masks' @ [ps])
      | ListOfLists pss \<Rightarrow> Inr (masks' @ pss)
      | NdArray ps \<Rightarrow> Inr (masks' @ [ps])
      | Unexpected \<Rightarrow> Inl ValueError)"

text \<open>The resize of a mask whose shape is not \<open>(height, width)\<close>.\<close>

definition fit_mask :: "('n, 'rle, 'tfm) env \<Rightarrow> array \<Rightarrow> nat \<Rightarrow> nat \<Rightarrow> error + array" where
  "fit_mask env msk height width =
     (if shape msk \<noteq> [height, width]
      then ebind (cv2_resize env (astype_uint8 (to_numpy msk)) (width, height))
             (\<lambda>r. Inr (as_tensor r))
      else Inr msk)"

text \<open>
  The loop: \<open>masks'\<close> and \<open>masks\<close> are the two lists \<^verbatim>\<open>masks_\<close> and \<^verbatim>\<open>masks\<close> of the source, both created before
  the loop and carried through it.
\<close>

fun poly_loop ::
  "('n, 'rle, 'tfm) env \<Rightarrow> nat \<Rightarrow> nat \<Rightarrow> 'n polygons list \<Rightarrow> 'n list list \<Rightarrow> array list
     \<Rightarrow> error + array list" where
  "poly_loop env height width [] masks' masks = Inr masks"
| "poly_loop env height width (polygons # rest) masks' masks =
     (case add_polygons masks' polygons of
        Inl e \<Rightarrow> Inl e
      | Inr masks'' \<Rightarrow>
          (case poly_mask env masks'' height width of
             Inl e \<Rightarrow> Inl e
           | Inr msk \<Rightarrow>
               (case fit_mask env msk height width of
                  Inl e \<Rightarrow> Inl e
                | Inr msk' \<Rightarrow> poly_loop env height width rest masks'' (masks @ [msk']))))"

definition convert_coco_poly_to_mask' ::
  "('n, 'rle, 'tfm) env \<Rightarrow> 'n polygons list \<Rightarrow> nat \<Rightarrow> nat \<Rightarrow> error + array" where
  "convert_coco_poly_to_mask' env segmentations height width =
     ebind (poly_loop env height width segmentations [] []) (\<lambda>masks.
       if length masks = 1 then Inr (np_expand_dims0 (hd masks))
       else if masks \<noteq> [] then torch_stack masks
       else Inr (torch_zeros [0, height, width] UInt8))"

subsection \<open>\<^verbatim>\<open>binary_masks_to_polygons\<close>\<close>

text \<open>The conversions of one mask before the contour search.\<close>

definition prepare_mask :: "array \<Rightarrow> array" where
  "prepare_mask mask_np =
     (let mask_np = (if kind mask_np = Torch then to_numpy mask_np else mask_np);
          mask_np = (if ndim mask_np = 3 then squeeze mask_np else mask_np);
          mask_np = (if dtype mask_np \<noteq> UInt8 then astype_uint8 mask_np else mask_np)
      in astype_uint8 mask_np)"

text \<open>
  A contour after \<^verbatim>\<open>squeeze(1)\<close> is a list of points; \<^verbatim>\<open>flatten\<close> lists their coordinates.
\<close>

definition flatten :: "('n \<times> 'n) list \<Rightarrow> 'n list" where
  "flatten contour = concat (map (\<lambda>(x, y). [x, y]) contour)"

fun contours_to_polygons :: "('n, 'rle, 'tfm) env \<Rightarrow> ('n \<times> 'n) list list \<Rightarrow> 'n list list" where
  "contours_to_polygons env [] = []"
| "contours_to_polygons env (contour # contours) =
     (if length contour < 3 then contours_to_polygons env contours
      else let polygon = map (py_float env) (flatten contour)
           in if 6 \<le> length polygon then polygon # contours_to_polygons env contours
              else contours_to_polygons env contours)"

definition mask_to_polygons :: "('n, 'rle, 'tfm) env \<Rightarrow> array \<Rightarrow> error + 'n list list" where
  "mask_to_polygons env mask_np =
     ebind (findContours env (prepare_mask mask_np)) (\<lambda>contours.
       Inr (contours_to_polygons env contours))"

definition binary_masks_to_polygons ::
  "('n, 'rle, 'tfm) env \<Rightarrow> array list \<Rightarrow> error + 'n list list list" where
  "binary_masks_to_polygons env masks = emap (mask_to_polygons env) masks"

subsection \<open>\<^verbatim>\<open>build_transform_gen\<close>\<close>

text \<open>
  \<^verbatim>\<open>T.RandomFlip(horizontal=..., vertical=...)\<close>: detectron2's constructor raises ValueError
  when both flags are set and when neither is. \<^verbatim>\<open>T.ResizeScale\<close> and \<^verbatim>\<open>T.FixedSizeCrop\<close> store
  their arguments.
\<close>

definition random_flip :: "bool \<Rightarrow> bool \<Rightarrow> error + 'n augmentation" where
  "random_flip horizontal' vertical' =
     (if horizontal' \<and> vertical' then Inl ValueError
      else if \<not> horizontal' \<and> \<not> vertical' then Inl ValueError
      else Inr (RandomFlip horizontal' vertical'))"

definition build_transform_gen :: "'n cfg \<Rightarrow> bool \<Rightarrow> error + 'n augmentation list" where
  "build_transform_gen cfg is_train =
     (if \<not> is_train then Inl AssertionError
      else
        let image_size = INPUT_IMAGE_SIZE cfg;
            min_scale = INPUT_MIN_SCALE cfg;
            max_scale = INPUT_MAX_SCALE cfg;
            augmentation = []
        in ebind (if INPUT_RANDOM_FLIP cfg \<noteq> ''none''
                  then ebind (random_flip (INPUT_RANDOM_FLIP cfg = ''horizontal'')
                                          (INPUT_RANDOM_FLIP cfg = ''vertical''))
                         (\<lambda>flip. Inr (augmentation @ [flip]))
                  else Inr augmentation) (\<lambda>augmentation.
             Inr (augmentation @
                    [ResizeScale min_scale max_scale image_size image_size,
                     FixedSizeCrop (image_size, image_size)])))"

subsection \<open>The mapper\<close>

text \<open>
  The attributes \<^verbatim>\<open>__init__\<close> sets and \<^verbatim>\<open>__call__\<close> reads. The two tokenizers are never
  used by the file and are left out; the \<^verbatim>\<open>bigcopypaste\<close> object is a field of \<open>env\<close>.
\<close>

record 'n mapper =
  tfm_gens :: "'n augmentation list"
  img_format :: string
  is_train :: bool
  meta :: metadata
  num_queries :: int
  things :: "int list"
  class_names :: "string list"
  use_big_copy_paste :: bool

definition init ::
  "bool \<Rightarrow> int \<Rightarrow> 'n augmentation list \<Rightarrow> metadata \<Rightarrow> string \<Rightarrow> 'n mapper" where
  "init is_train' num_queries' tfm_gens' meta' image_format =
     \<lparr>tfm_gens = tfm_gens', img_format = image_format, is_train = is_train', meta = meta',
      num_queries = num_queries',
      things = map snd (thing_dataset_id_to_contiguous_id meta'),
      class_names = thing_classes meta', use_big_copy_paste = True\<rparr>"

text \<open>
  \<^verbatim>\<open>from_config\<close> followed by the constructor call that \<^verbatim>\<open>@configurable\<close> makes with its
  result. \<open>catalog\<close> is \<^verbatim>\<open>MetadataCatalog.get\<close>.
\<close>

definition from_config ::
  "(string \<Rightarrow> error + metadata) \<Rightarrow> 'n cfg \<Rightarrow> bool \<Rightarrow> error + 'n mapper" where
  "from_config catalog cfg is_train' =
     ebind (build_transform_gen cfg is_train') (\<lambda>tfm_gens'.
     ebind (py_index (DATASETS_TRAIN cfg) 0) (\<lambda>dataset_name.
     ebind (catalog dataset_name) (\<lambda>meta'.
       Inr (init is_train'
              (MODEL_ONE_FORMER_NUM_OBJECT_QUERIES cfg - MODEL_TEXT_ENCODER_N_CTX cfg)
              tfm_gens' meta' (INPUT_FORMAT cfg)))))"

subsection \<open>\<^verbatim>\<open>_get_texts\<close>\<close>

definition prompt :: "string \<Rightarrow> string" where
  "prompt cls_name = ''a photo with a '' @ cls_name"

text \<open>The first loop: one increment of \<^verbatim>\<open>num_class_obj\<close> per class id.\<close>

fun count_classes ::
  "string list \<Rightarrow> int list \<Rightarrow> (string \<rightharpoonup> int) \<Rightarrow> error + (string \<rightharpoonup> int)" where
  "count_classes names [] num_class_obj = Inr num_class_obj"
| "count_classes names (class_id # classes) num_class_obj =
     (case py_index names class_id of
        Inl e \<Rightarrow> Inl e
      | Inr cls_name \<Rightarrow>
          (case num_class_obj cls_name of
             None \<Rightarrow> Inl (KeyError cls_name)
           | Some c \<Rightarrow> count_classes names classes (num_class_obj(cls_name \<mapsto> c + 1))))"

text \<open>
  The inner loop \<^verbatim>\<open>for _ in range(n)\<close> with its \<^verbatim>\<open>break\<close>, on the pair of \<^verbatim>\<open>texts\<close> and
  \<^verbatim>\<open>num\<close>.
\<close>

fun fill_class :: "string \<Rightarrow> nat \<Rightarrow> string list \<Rightarrow> nat \<Rightarrow> string list \<times> nat" where
  "fill_class cls_name 0 texts num = (texts, num)"
| "fill_class cls_name (Suc n) texts num =
     (if length texts \<le> num then (texts, num)
      else fill_class cls_name n (texts[num := prompt cls_name]) (num + 1))"

text \<open>The outer loop over \<^verbatim>\<open>self.class_names\<close>.\<close>

fun fill_texts ::
  "string list \<Rightarrow> (string \<rightharpoonup> int) \<Rightarrow> string list \<Rightarrow> nat \<Rightarrow> error + string list" where
  "fill_texts [] num_class_obj texts num = Inr texts"
| "fill_texts (cls_name # names) num_class_obj texts num =
     (case num_class_obj cls_name of
        None \<Rightarrow> Inl (KeyError cls_name)
      | Some c \<Rightarrow>
          if 0 < c
          then (case fill_class cls_name (nat c) texts num of
                  (texts', num') \<Rightarrow> fill_texts names num_class_obj texts' num')
          else fill_texts names num_class_obj texts num)"

text \<open>A name cannot start with an underscore here, so \<^verbatim>\<open>_get_texts\<close> is \<open>get_texts\<close>.\<close>

definition get_texts :: "'n mapper \<Rightarrow> int list \<Rightarrow> (string \<rightharpoonup> int) \<Rightarrow> error + string list" where
  "get_texts self classes num_class_obj =
     (let texts = replicate (nat (num_queries self)) ''an instance photo''
      in ebind (count_classes (class_names self) classes num_class_obj) (\<lambda>num_class_obj.
           fill_texts (class_names self) num_class_obj texts 0))"

text \<open>The dict \<^verbatim>\<open>__call__\<close> passes: every class name with count 0.\<close>

definition init_num_class_obj :: "string list \<Rightarrow> (string \<rightharpoonup> int)" where
  "init_num_class_obj names = foldl (\<lambda>num_class_obj name. num_class_obj(name \<mapsto> 0)) Map.empty names"

text \<open>
  The claim about \<^verbatim>\<open>_get_texts\<close> in its own words: the prompts of the instances, grouped in
  the order of the class names, each class name as often as instances have it.
\<close>

definition grouped_prompts :: "string list \<Rightarrow> string list \<Rightarrow> string list" where
  "grouped_prompts names instance_names =
     concat (map (\<lambda>name. replicate (count_list instance_names name) (prompt name)) names)"

subsection \<open>Operations on the store\<close>

text \<open>
  A step of \<^verbatim>\<open>__call__\<close> takes the store and returns an error or a value, and the store
  after it: an exception leaves the writes made before it in place.
\<close>

type_synonym ('n, 'a) step = "'n store \<Rightarrow> (error + 'a) \<times> 'n store"

definition sbind :: "('n, 'a) step \<Rightarrow> ('a \<Rightarrow> ('n, 'b) step) \<Rightarrow> ('n, 'b) step" where
  "sbind m f h = (case m h of (Inl e, h') \<Rightarrow> (Inl e, h') | (Inr x, h') \<Rightarrow> f x h')"

definition lift :: "error + 'a \<Rightarrow> ('n, 'a) step" where
  "lift m h = (m, h)"

text \<open>
  \<^verbatim>\<open>copy.deepcopy(d)\<close>: a new object with the contents of the old one. Nothing of a deep copy
  is shared with the original, so the values under its keys are plain values here.
\<close>

definition deepcopy :: "nat \<Rightarrow> ('n, nat) step" where
  "deepcopy a h =
     (Inr (next_addr h),
      h\<lparr>objs := (objs h)(next_addr h := objs h a), next_addr := Suc (next_addr h)\<rparr>)"

text \<open>\<^verbatim>\<open>d[k]\<close>, \<^verbatim>\<open>d[k] = v\<close> and \<^verbatim>\<open>d.pop(k, None)\<close> on the dict at an address.\<close>

definition getitem :: "nat \<Rightarrow> string \<Rightarrow> ('n, 'n val) step" where
  "getitem a k h = ((case objs h a k of None \<Rightarrow> Inl (KeyError k) | Some v \<Rightarrow> Inr v), h)"

definition setitem :: "nat \<Rightarrow> string \<Rightarrow> 'n val \<Rightarrow> ('n, unit) step" where
  "setitem a k v h = (Inr (), h\<lparr>objs := (objs h)(a := (objs h a)(k \<mapsto> v))\<rparr>)"

definition pop_default :: "nat \<Rightarrow> string \<Rightarrow> ('n, unit) step" where
  "pop_default a k h = (Inr (), h\<lparr>objs := (objs h)(a := (objs h a)(k := None))\<rparr>)"

text \<open>
  \<^verbatim>\<open>utils.check_image_size(dataset_dict, image)\<close>: the library gets the dict and may change
  it; what it returns here is the dict afterwards.
\<close>

definition check_size :: "('n, 'rle, 'tfm) env \<Rightarrow> nat \<Rightarrow> array \<Rightarrow> ('n, unit) step" where
  "check_size env a img h =
     (case check_image_size env (objs h a) img of
        Inl e \<Rightarrow> (Inl e, h)
      | Inr d \<Rightarrow> (Inr (), h\<lparr>objs := (objs h)(a := d)\<rparr>))"

text \<open>\<^verbatim>\<open>dataset_dict.get("annotations", [])\<close>; a value that is no list of annotations fails.\<close>

definition get_annotations :: "nat \<Rightarrow> ('n, 'n anno list) step" where
  "get_annotations a h =
     ((case objs h a ''annotations'' of
         None \<Rightarrow> Inr []
       | Some (VAnnos annos) \<Rightarrow> Inr annos
       | Some _ \<Rightarrow> Inl TypeError), h)"

text \<open>\<^verbatim>\<open>dataset_dict.pop("annotations")\<close>, with no default.\<close>

definition pop_annotations :: "nat \<Rightarrow> ('n, 'n anno list) step" where
  "pop_annotations a h =
     (case objs h a ''annotations'' of
        None \<Rightarrow> (Inl (KeyError ''annotations''), h)
      | Some (VAnnos annos) \<Rightarrow>
          (Inr annos, h\<lparr>objs := (objs h)(a := (objs h a)(''annotations'' := None))\<rparr>)
      | Some _ \<Rightarrow> (Inl TypeError, h))"

subsection \<open>\<^verbatim>\<open>__call__\<close>\<close>

text \<open>
  Lines 259 to 263: the three locals \<^verbatim>\<open>masks\<close>, \<^verbatim>\<open>boxes\<close> and \<^verbatim>\<open>label_dict\<close> are bound only
  under the condition; \<open>None\<close> is "not bound".
\<close>

definition copy_paste_inputs ::
  "('n, 'rle, 'tfm) env \<Rightarrow> 'n mapper \<Rightarrow> array \<Rightarrow> 'n anno list
     \<Rightarrow> error + (array list \<times> 'n list list \<times> int list) option" where
  "copy_paste_inputs env self img annos =
     (if use_big_copy_paste self \<and> 0 < length annos
      then ebind (emap (\<lambda>anno.
                    ebind (py_index (shape img) 0) (\<lambda>height.
                    ebind (py_index (shape img) 1) (\<lambda>width.
                      convert_coco_poly_to_mask' env (segmentation anno) height width)))
                  annos) (\<lambda>masks.
             Inr (Some (masks, map bbox annos, map category_id annos)))
      else Inr None)"

text \<open>Line 268: the call reads the three locals; an unbound one raises.\<close>

definition copy_paste ::
  "('n, 'rle, 'tfm) env \<Rightarrow> array \<Rightarrow> (array list \<times> 'n list list \<times> int list) option
     \<Rightarrow> error + array \<times> array list \<times> 'n list list \<times> int list" where
  "copy_paste env img locals =
     (case locals of
        None \<Rightarrow> Inl (UnboundLocalError ''masks'')
      | Some (masks, boxes, labels) \<Rightarrow> bigcopypaste env img masks boxes labels)"

text \<open>Lines 273 to 283: the annotation built for index \<open>i\<close>.\<close>

definition new_annotation ::
  "('n::minus, 'rle, 'tfm) env \<Rightarrow> 'n list list \<Rightarrow> int list \<Rightarrow> 'n list list list \<Rightarrow> nat
     \<Rightarrow> error + 'n anno" where
  "new_annotation env boxes labels masks i =
     ebind (py_index boxes (int i)) (\<lambda>box.
       case box of
         [x1, y1, x2, y2] \<Rightarrow>
           (let w = x2 - x1; h = y2 - y1
            in ebind (py_index labels (int i)) (\<lambda>label.
                 Inr \<lparr>iscrowd = Some 0,
                      bbox = [py_float env x1, py_float env y1, py_float env w, py_float env h],
                      category_id = label,
                      segmentation = map FloatList (masks ! i),
                      bbox_mode = XYWH_ABS,
                      keypoints = None\<rparr>))
       | _ \<Rightarrow> Inl ValueError)"

text \<open>Lines 270 to 283: the polygons of the augmented masks, then one annotation per mask.\<close>

definition regenerate_annotations ::
  "('n::minus, 'rle, 'tfm) env \<Rightarrow> array list \<Rightarrow> 'n list list \<Rightarrow> int list
     \<Rightarrow> error + 'n anno list" where
  "regenerate_annotations env masks boxes labels =
     ebind (binary_masks_to_polygons env masks) (\<lambda>masks.
       emap (new_annotation env boxes labels masks) [0..<length masks])"

text \<open>
  Lines 325 to 342, on the annotations popped from the record: transform the ones that are
  not crowd, build the \<^verbatim>\<open>Instances\<close>, take the boxes from the masks, drop the empty
  instances, rasterise the polygons.
\<close>

definition build_instances ::
  "('n, 'rle, 'tfm) env \<Rightarrow> 'tfm \<Rightarrow> nat list \<Rightarrow> 'n anno list \<Rightarrow> error + 'n instances" where
  "build_instances env transforms image_shape popped =
     ebind (emap (\<lambda>obj. transform_instance_annotations env obj transforms image_shape)
              (filter (\<lambda>obj. (case iscrowd obj of None \<Rightarrow> 0 | Some c \<Rightarrow> c) = 0) popped))
       (\<lambda>annos.
     ebind (annotations_to_instances env annos image_shape) (\<lambda>instances.
     ebind (case gt_masks instances of
              None \<Rightarrow> Inl (AttributeError ''gt_masks'')
            | Some m \<Rightarrow> get_bounding_boxes env m) (\<lambda>boxes.
     ebind (filter_empty_instances env (instances\<lparr>gt_boxes := Some boxes\<rparr>)) (\<lambda>instances.
       case image_size instances of
         (h, w) \<Rightarrow>
           (case gt_masks instances of
              None \<Rightarrow> Inr instances
            | Some (PolygonMasks polygons) \<Rightarrow>
                ebind (convert_coco_poly_to_mask env polygons h w) (\<lambda>gt.
                  Inr (instances\<lparr>gt_masks := Some (MaskTensor gt)\<rparr>))
            | Some _ \<Rightarrow> Inl (AttributeError ''polygons''))))))"

text \<open>
  Lines 319 to 342 on the store: if the record has annotations, their keypoints are popped
  in place, the list is popped from the record and the instances are built; \<open>None\<close> is
  "\<^verbatim>\<open>instances\<close> is not bound".
\<close>

definition instances_step ::
  "('n, 'rle, 'tfm) env \<Rightarrow> nat \<Rightarrow> 'tfm \<Rightarrow> nat list \<Rightarrow> ('n, 'n instances option) step" where
  "instances_step env dataset_dict transforms image_shape h =
     (if ''annotations'' \<in> dom (objs h dataset_dict)
      then sbind (get_annotations dataset_dict) (\<lambda>annos.
           sbind (setitem dataset_dict ''annotations''
                    (VAnnos (map (\<lambda>anno. anno\<lparr>keypoints := None\<rparr>) annos))) (\<lambda>_.
           sbind (pop_annotations dataset_dict) (\<lambda>popped.
             lift (ebind (build_instances env transforms image_shape popped) (\<lambda>instances.
                     Inr (Some instances)))))) h
      else (Inr None, h))"

text \<open>Lines 345 to 350: the texts of the instances' classes.\<close>

definition texts_of ::
  "'n mapper \<Rightarrow> 'n instances option \<Rightarrow> error + 'n instances \<times> string list" where
  "texts_of self bound =
     (let num_class_obj = init_num_class_obj (class_names self)
      in case bound of
           None \<Rightarrow> Inl (UnboundLocalError ''instances'')
         | Some instances \<Rightarrow>
             (case gt_classes instances of
                None \<Rightarrow> Inl (AttributeError ''gt_classes'')
              | Some classes \<Rightarrow>
                  ebind (get_texts self classes num_class_obj) (\<lambda>text.
                    Inr (instances, text))))"

text \<open>
  \<^verbatim>\<open>__call__\<close>, lines 255 to 296, which both modes run, on the copy at \<open>dataset_dict\<close>.
  The step returns what the rest of the function reads: the transforms and the image shape.
\<close>

definition load_and_augment ::
  "('n::minus, 'rle, 'tfm) env \<Rightarrow> 'n mapper \<Rightarrow> nat \<Rightarrow> ('n, 'tfm \<times> nat list) step" where
  "load_and_augment env self dataset_dict =
     sbind (getitem dataset_dict ''file_name'') (\<lambda>file_name.
     sbind (lift (read_image env file_name (img_format self))) (\<lambda>img.
     sbind (check_size env dataset_dict img) (\<lambda>_.
     sbind (get_annotations dataset_dict) (\<lambda>annos.
     sbind (lift (copy_paste_inputs env self img annos)) (\<lambda>locals.
     let padding_mask = np_ones (take 2 (shape img)) in
     sbind (lift (copy_paste env img locals)) (\<lambda>(img', masks, boxes, labels).
     sbind (lift (apply_transform_gens env (tfm_gens self) img')) (\<lambda>(img, transforms).
     sbind (lift (regenerate_annotations env masks boxes labels)) (\<lambda>new_annotations.
     sbind (setitem dataset_dict ''annotations'' (VAnnos new_annotations)) (\<lambda>_.
     sbind (lift (apply_segmentation env transforms padding_mask)) (\<lambda>padding_mask.
     let padding_mask = not_astype_bool padding_mask;
         image_shape = take 2 (shape img) in
     sbind (lift (transpose_201 img)) (\<lambda>chw.
     sbind (setitem dataset_dict ''image'' (VArray (as_tensor chw))) (\<lambda>_.
     sbind (setitem dataset_dict ''padding_mask'' (VArray (as_tensor padding_mask))) (\<lambda>_.
       lift (Inr (transforms, image_shape)))))))))))))))"

text \<open>
  \<^verbatim>\<open>__call__\<close>: \<open>dataset_dict\<close> is the address of the caller's record; line 254 binds the
  name to the address of the copy. Then the common part, then lines 298 to 358. The result
  is the address of the record returned.
\<close>

definition call ::
  "('n::minus, 'rle, 'tfm) env \<Rightarrow> 'n mapper \<Rightarrow> nat \<Rightarrow> ('n, nat) step" where
  "call env self dataset_dict =
     sbind (deepcopy dataset_dict) (\<lambda>dataset_dict.
     sbind (load_and_augment env self dataset_dict) (\<lambda>(transforms, image_shape).
       if \<not> is_train self
       then sbind (pop_default dataset_dict ''annotations'') (\<lambda>_. lift (Inr dataset_dict))
       else
         sbind (instances_step env dataset_dict transforms image_shape) (\<lambda>bound.
         sbind (lift (texts_of self bound)) (\<lambda>(instances, text).
         sbind (setitem dataset_dict ''instances'' (VInstances instances)) (\<lambda>_.
         sbind (setitem dataset_dict ''orig_shape'' (VShape image_shape)) (\<lambda>_.
         sbind (setitem dataset_dict ''task'' (VStr ''The task is instance'')) (\<lambda>_.
         sbind (setitem dataset_dict ''text'' (VTexts text)) (\<lambda>_.
         sbind (setitem dataset_dict ''thing_ids'' (VInts (things self))) (\<lambda>_.
           lift (Inr dataset_dict))))))))))"

text \<open>
  What detectron2 documents of \<^verbatim>\<open>check_image_size\<close>: it raises, or it returns after filling
  in \<^verbatim>\<open>"width"\<close> and \<^verbatim>\<open>"height"\<close>; no other key of the record is touched.
\<close>

definition size_check_only :: "('n, 'rle, 'tfm) env \<Rightarrow> bool" where
  "size_check_only env \<longleftrightarrow>
     (\<forall>d img d' k. check_image_size env d img = Inr d' \<longrightarrow>
        k \<noteq> ''width'' \<longrightarrow> k \<noteq> ''height'' \<longrightarrow> d' k = d k)"

text \<open>A step that writes to no object but the one at \<open>a\<close>, and allocates nothing.\<close>

definition writes_only :: "nat \<Rightarrow> ('n, 'a) step \<Rightarrow> bool" where
  "writes_only a m \<longleftrightarrow>
     (\<forall>h. next_addr (snd (m h)) = next_addr h \<and>
          (\<forall>p. p \<noteq> a \<longrightarrow> objs (snd (m h)) p = objs h p))"

text \<open>
  \<^verbatim>\<open>texts\<close> after the prompts \<open>G\<close> have been written to a list of \<open>n\<close> default entries:
  the loops of \<^verbatim>\<open>_get_texts\<close> keep \<^verbatim>\<open>texts\<close> in this form.
\<close>

definition fillF :: "nat \<Rightarrow> string list \<Rightarrow> string list" where
  "fillF n G = take n (G @ replicate n ''an instance photo'')"

subsection \<open>Example inputs\<close>

text \<open>
  A small instance of the libraries, on which the model is evaluated in the examples below:
  images are 2 by 2, a polygon covers the pixels whose row-major index is among its
  numbers, and the copy-paste and the geometric transforms change nothing.
\<close>

definition demo_env :: "(int, nat \<times> nat \<times> int list list, unit) env" where
  "demo_env =
     \<lparr>py_float = (\<lambda>x. x),
      frPyObjects = (\<lambda>polygons h w. Inr (h, w, polygons)),
      decode = (\<lambda>(h, w, polygons).
        Inr (Array Numpy [h, w, length polygons] UInt8
               (concat (map (\<lambda>pixel. map (\<lambda>p. if int pixel \<in> set p then 1 else 0) polygons)
                          [0..<h * w])))),
      cv2_resize = (\<lambda>a (w, h). Inr (Array Numpy [h, w] (dtype a) (replicate (h * w) 0))),
      findContours = (\<lambda>a.
        Inr (if list_all (\<lambda>x. x = 0) (elems a) then []
             else [[(0, 0), (1, 0), (1, 1)], [(5, 5), (6, 5)]])),
      read_image = (\<lambda>v fmt.
        case v of VStr _ \<Rightarrow> Inr (Array Numpy [2, 2, 3] UInt8 [1, 2, 3, 4, 5, 6, 7, 8, 9, 10, 11, 12])
                | _ \<Rightarrow> Inl TypeError),
      check_image_size = (\<lambda>d img. Inr (d(''width'' \<mapsto> VInt 2, ''height'' \<mapsto> VInt 2))),
      bigcopypaste = (\<lambda>img masks boxes labels. Inr (img, masks, boxes, labels)),
      apply_transform_gens = (\<lambda>augs img. Inr (img, ())),
      apply_segmentation = (\<lambda>t a. Inr a),
      transform_instance_annotations = (\<lambda>a t s. Inr a),
      annotations_to_instances = (\<lambda>annos s.
        Inr \<lparr>image_size = (s ! 0, s ! 1), gt_boxes = Some (map bbox annos),
             gt_classes = Some (map category_id annos),
             gt_masks = Some (PolygonMasks (map (\<lambda>a. concat (map (\<lambda>p.
               case p of FloatList ps \<Rightarrow> [ps] | ListOfLists pss \<Rightarrow> pss
                       | NdArray ps \<Rightarrow> [ps] | Unexpected \<Rightarrow> []) (segmentation a))) annos))\<rparr>),
      get_bounding_boxes = (\<lambda>m. Inr []),
      filter_empty_instances = (\<lambda>i. Inr i)\<rparr>"

definition demo_mapper :: "bool \<Rightarrow> int mapper" where
  "demo_mapper training =
     init training 3 [RandomFlip True False, ResizeScale 1 2 512 512, FixedSizeCrop (512, 512)]
       \<lparr>thing_dataset_id_to_contiguous_id = [(1, 0), (2, 1)],
        thing_classes = [''cat'', ''dog'']\<rparr> ''RGB''"

text \<open>A store with one record at address 0, and the annotation list used below.\<close>

definition demo_annos :: "int anno list" where
  "demo_annos =
     [\<lparr>iscrowd = Some 0, bbox = [10, 20, 40, 60], category_id = 1,
       segmentation = [FloatList [0]], bbox_mode = XYWH_ABS, keypoints = None\<rparr>]"

definition demo_store :: "int anno list \<Rightarrow> int store" where
  "demo_store annos =
     \<lparr>objs = (\<lambda>p. if p = 0
                   then [''file_name'' \<mapsto> VStr ''a.png'', ''image_id'' \<mapsto> VInt 7,
                         ''annotations'' \<mapsto> VAnnos annos]
                   else Map.empty),
      next_addr = 1\<rparr>"

section \<open>Properties\<close>

subsection \<open>Sequencing lemmas\<close>

lemma ebind_Inr [simp]: "ebind (Inr x) f = f x"
  by (simp add: ebind_def)

lemma ebind_Inl [simp]: "ebind (Inl e) f = Inl e"
  by (simp add: ebind_def)


lemma emap_Inr_length: "emap f xs = Inr ys \<Longrightarrow> length ys = length xs"
  by (induction xs arbitrary: ys) (auto split: sum.splits)

lemma emap_Inr_nth: "emap f xs = Inr ys \<Longrightarrow> i < length xs \<Longrightarrow> f (xs ! i) = Inr (ys ! i)"
proof (induction xs arbitrary: ys i)
  case Nil
  then show ?case by simp
next
  case (Cons x xs)
  then show ?case by (cases i) (auto split: sum.splits)
qed

lemma emap_total:
  "(\<And>x. x \<in> set xs \<Longrightarrow> \<exists>y. f x = Inr y) \<Longrightarrow> \<exists>ys. emap f xs = Inr ys"
proof (induction xs)
  case Nil
  then show ?case by simp
next
  case (Cons x xs)
  then obtain y where "f x = Inr y" by force
  moreover from Cons obtain ys where "emap f xs = Inr ys" by force
  ultimately show ?case by simp
qed

subsection \<open>The augmentation list\<close>

text \<open>
  C5. In training mode, for \<^verbatim>\<open>cfg.INPUT.RANDOM_FLIP\<close> one of \<^verbatim>\<open>"none"\<close>, \<^verbatim>\<open>"horizontal"\<close> and
  \<^verbatim>\<open>"vertical"\<close>, \<^verbatim>\<open>build_transform_gen\<close> returns, in this order: a \<^verbatim>\<open>RandomFlip\<close>, present
  exactly when the setting is not \<^verbatim>\<open>"none"\<close>, horizontal iff the setting is \<^verbatim>\<open>"horizontal"\<close>
  and vertical iff it is \<^verbatim>\<open>"vertical"\<close>; then a \<^verbatim>\<open>ResizeScale\<close> with the configured scales and
  the image size as both target sides; then a \<^verbatim>\<open>FixedSizeCrop\<close> of (image size, image size).
  For every other setting the \<^verbatim>\<open>RandomFlip\<close> constructor gets neither flag and raises
  ValueError, so no list is returned.
\<close>

theorem build_transform_gen_order:
  "build_transform_gen cfg True =
     (if INPUT_RANDOM_FLIP cfg \<in> {''none'', ''horizontal'', ''vertical''}
      then Inr ((if INPUT_RANDOM_FLIP cfg \<noteq> ''none''
                 then [RandomFlip (INPUT_RANDOM_FLIP cfg = ''horizontal'')
                                  (INPUT_RANDOM_FLIP cfg = ''vertical'')]
                 else []) @
                [ResizeScale (INPUT_MIN_SCALE cfg) (INPUT_MAX_SCALE cfg)
                   (INPUT_IMAGE_SIZE cfg) (INPUT_IMAGE_SIZE cfg),
                 FixedSizeCrop (INPUT_IMAGE_SIZE cfg, INPUT_IMAGE_SIZE cfg)])
      else Inl ValueError)"
proof (cases "INPUT_RANDOM_FLIP cfg = ''none''")
  case True
  then show ?thesis by (simp add: build_transform_gen_def Let_def)
next
  case False
  then show ?thesis
    by (cases "INPUT_RANDOM_FLIP cfg = ''horizontal''";
        cases "INPUT_RANDOM_FLIP cfg = ''vertical''")
       (simp_all add: build_transform_gen_def random_flip_def Let_def)
qed

theorem build_transform_gen_order_witness:
  "build_transform_gen
     \<lparr>INPUT_IMAGE_SIZE = 512, INPUT_MIN_SCALE = (1::int), INPUT_MAX_SCALE = 2,
      INPUT_RANDOM_FLIP = ''horizontal'', INPUT_FORMAT = ''RGB'', INPUT_TASK_SEQ_LEN = 77,
      INPUT_MAX_SEQ_LEN = 77, DATASETS_TRAIN = [''hanwha_train''],
      MODEL_ONE_FORMER_NUM_OBJECT_QUERIES = 150, MODEL_TEXT_ENCODER_N_CTX = 16\<rparr> True =
   Inr [RandomFlip True False, ResizeScale 1 2 512 512, FixedSizeCrop (512, 512)]"
  using build_transform_gen_order
    [of "\<lparr>INPUT_IMAGE_SIZE = 512, INPUT_MIN_SCALE = (1::int), INPUT_MAX_SCALE = 2,
      INPUT_RANDOM_FLIP = ''horizontal'', INPUT_FORMAT = ''RGB'', INPUT_TASK_SEQ_LEN = 77,
      INPUT_MAX_SEQ_LEN = 77, DATASETS_TRAIN = [''hanwha_train''],
      MODEL_ONE_FORMER_NUM_OBJECT_QUERIES = 150, MODEL_TEXT_ENCODER_N_CTX = 16\<rparr>"]
  by simp

text \<open>
  The setting \<^verbatim>\<open>"diagonal"\<close> is not \<^verbatim>\<open>"none"\<close>, so a flip is constructed, with neither flag:
  the call raises instead of returning a list that starts with a \<^verbatim>\<open>RandomFlip\<close>.
\<close>

theorem build_transform_gen_order_counterexample:
  "build_transform_gen
     \<lparr>INPUT_IMAGE_SIZE = 512, INPUT_MIN_SCALE = (1::int), INPUT_MAX_SCALE = 2,
      INPUT_RANDOM_FLIP = ''diagonal'', INPUT_FORMAT = ''RGB'', INPUT_TASK_SEQ_LEN = 77,
      INPUT_MAX_SEQ_LEN = 77, DATASETS_TRAIN = [''hanwha_train''],
      MODEL_ONE_FORMER_NUM_OBJECT_QUERIES = 150, MODEL_TEXT_ENCODER_N_CTX = 16\<rparr> True = Inl ValueError"
  by (simp add: build_transform_gen_def random_flip_def Let_def)

subsection \<open>Polygons of binary masks\<close>






subsection \<open>The text prompts\<close>

lemma length_fillF [simp]: "length (fillF nq G) = nq"
  by (simp add: fillF_def)

lemma fillF_full: "nq \<le> length G \<Longrightarrow> fillF nq (G @ H) = fillF nq G"
  by (simp add: fillF_def)

lemma fillF_update: "length G < nq \<Longrightarrow> (fillF nq G)[length G := p] = fillF nq (G @ [p])"
  by (auto simp: fillF_def list_eq_iff_nth_eq nth_list_update nth_append)

lemma fill_class_fillF:
  "fill_class cls k (fillF nq G) (min nq (length G)) =
     (fillF nq (G @ replicate k (prompt cls)), min nq (length G + k))"
proof (induction k arbitrary: G)
  case 0
  then show ?case by simp
next
  case (Suc k)
  show ?case
  proof (cases "nq \<le> length G")
    case True
    then show ?thesis by (simp add: fillF_full min_def)
  next
    case False
    then have lt: "length G < nq" by simp
    then have m: "min nq (length G) = length G" by simp
    have m2: "min nq (length (G @ [prompt cls])) = Suc (length G)" using lt by simp
    have "fill_class cls (Suc k) (fillF nq G) (min nq (length G)) =
          fill_class cls k (fillF nq (G @ [prompt cls])) (min nq (length (G @ [prompt cls])))"
      unfolding m m2 using lt by (simp add: fillF_update)
    also have "\<dots> = (fillF nq ((G @ [prompt cls]) @ replicate k (prompt cls)),
                     min nq (length (G @ [prompt cls]) + k))"
      by (rule Suc.IH)
    finally show ?thesis by (simp add: replicate_app_Cons_same)
  qed
qed

lemma fill_texts_fillF:
  assumes "\<And>name. name \<in> set names \<Longrightarrow> \<exists>c. nco name = Some c"
  shows "fill_texts names nco (fillF nq G) (min nq (length G)) =
           Inr (fillF nq (G @ concat (map (\<lambda>name. replicate (nat (the (nco name))) (prompt name)) names)))"
  using assms
proof (induction names arbitrary: G)
  case Nil
  then show ?case by simp
next
  case (Cons name names)
  then obtain c where c: "nco name = Some c" by force
  have IH: "\<And>G. fill_texts names nco (fillF nq G) (min nq (length G)) =
           Inr (fillF nq (G @ concat (map (\<lambda>name. replicate (nat (the (nco name))) (prompt name)) names)))"
    using Cons by simp
  show ?case
  proof (cases "0 < c")
    case True
    have "fill_texts (name # names) nco (fillF nq G) (min nq (length G)) =
          fill_texts names nco (fillF nq (G @ replicate (nat c) (prompt name)))
             (min nq (length (G @ replicate (nat c) (prompt name))))"
      using True c by (simp add: fill_class_fillF)
    then show ?thesis using c IH[of "G @ replicate (nat c) (prompt name)"] by simp
  next
    case False
    then show ?thesis using c IH[of G] by simp
  qed
qed

lemma py_index_Inr_mem: "py_index xs i = Inr x \<Longrightarrow> x \<in> set xs"
  by (auto simp: py_index_def split: if_splits)

lemma count_classes_counts:
  assumes "emap (py_index names) classes = Inr inst"
    and "\<And>name. name \<in> set names \<Longrightarrow> \<exists>c. nco name = Some c"
  shows "\<exists>nco'. count_classes names classes nco = Inr nco' \<and>
           (\<forall>name \<in> set names. nco' name = Some (the (nco name) + int (count_list inst name)))"
  using assms
proof (induction classes arbitrary: nco inst)
  case Nil
  then show ?case by auto
next
  case (Cons c classes)
  from Cons.prems(1) obtain n rest where n: "py_index names c = Inr n"
    and rest: "emap (py_index names) classes = Inr rest" and inst: "inst = n # rest"
    by (auto split: sum.splits)
  have nmem: "n \<in> set names" using n by (rule py_index_Inr_mem)
  then obtain k where k: "nco n = Some k" using Cons.prems(2) by force
  let ?nco = "nco(n \<mapsto> k + 1)"
  have "\<exists>nco'. count_classes names classes ?nco = Inr nco' \<and>
           (\<forall>name \<in> set names. nco' name = Some (the (?nco name) + int (count_list rest name)))"
    by (rule Cons.IH[OF rest]) (use Cons.prems(2) in auto)
  then obtain nco' where
    r: "count_classes names classes ?nco = Inr nco'"
    and v: "\<forall>name \<in> set names. nco' name = Some (the (?nco name) + int (count_list rest name))"
    by blast
  have "count_classes names (c # classes) nco = Inr nco'" using n k r by simp
  moreover have "\<forall>name \<in> set names. nco' name = Some (the (nco name) + int (count_list inst name))"
    using v k inst by auto
  ultimately show ?case by blast
qed

lemma init_num_class_obj_foldl:
  "foldl (\<lambda>m name. m(name \<mapsto> (0::int))) m0 names name =
     (if name \<in> set names then Some 0 else m0 name)"
  by (induction names arbitrary: m0) auto

lemma init_num_class_obj_eq:
  "init_num_class_obj names name = (if name \<in> set names then Some 0 else None)"
  by (simp add: init_num_class_obj_def init_num_class_obj_foldl)

lemma get_texts_eq:
  assumes "emap (py_index (class_names self)) classes = Inr inst"
  shows "get_texts self classes (init_num_class_obj (class_names self)) =
           Inr (fillF (nat (num_queries self)) (grouped_prompts (class_names self) inst))"
proof -
  let ?names = "class_names self"
  let ?nq = "nat (num_queries self)"
  have "\<exists>nco'. count_classes ?names classes (init_num_class_obj ?names) = Inr nco' \<and>
           (\<forall>name \<in> set ?names. nco' name =
              Some (the (init_num_class_obj ?names name) + int (count_list inst name)))"
    by (rule count_classes_counts[OF assms]) (simp add: init_num_class_obj_eq)
  then obtain nco' where
    r: "count_classes ?names classes (init_num_class_obj ?names) = Inr nco'"
    and v: "\<forall>name \<in> set ?names. nco' name = Some (int (count_list inst name))"
    by (auto simp: init_num_class_obj_eq)
  have "fill_texts ?names nco' (fillF ?nq []) (min ?nq (length ([]::string list))) =
          Inr (fillF ?nq ([] @ concat (map (\<lambda>name. replicate (nat (the (nco' name))) (prompt name)) ?names)))"
    by (rule fill_texts_fillF) (use v in auto)
  moreover have "map (\<lambda>name. replicate (nat (the (nco' name))) (prompt name)) ?names =
                 map (\<lambda>name. replicate (count_list inst name) (prompt name)) ?names"
    using v by (intro map_cong) auto
  ultimately show ?thesis
    using r by (simp add: get_texts_def grouped_prompts_def fillF_def)
qed

lemma emap_py_index_total:
  assumes "\<forall>c \<in> set classes. - int (length names) \<le> c \<and> c < int (length names)"
  shows "\<exists>inst. emap (py_index names) classes = Inr inst"
proof (rule emap_total)
  fix c assume "c \<in> set classes"
  then show "\<exists>y. py_index names c = Inr y" using assms by (auto simp: py_index_def)
qed

lemma emap_set: "emap f xs = Inr ys \<Longrightarrow> y \<in> set ys \<Longrightarrow> \<exists>x \<in> set xs. f x = Inr y"
  by (induction xs arbitrary: ys) (auto split: sum.splits)

lemma mset_grouped_filter:
  "distinct names \<Longrightarrow>
     mset (grouped_prompts names inst) =
       image_mset prompt (filter_mset (\<lambda>x. x \<in> set names) (mset inst))"
proof (induction names)
  case Nil
  then show ?case by (simp add: grouped_prompts_def)
next
  case (Cons n ns)
  then have n: "n \<notin> set ns" and d: "distinct ns" by simp_all
  have split: "filter_mset (\<lambda>x. x = n \<or> x \<in> set ns) (mset inst) =
        filter_mset (\<lambda>x. x = n) (mset inst) + filter_mset (\<lambda>x. x \<in> set ns) (mset inst)"
    using n by (induction inst) auto
  have img: "image_mset prompt (replicate_mset k n) = replicate_mset k (prompt n)" for k
    by (induction k) auto
  have one: "filter_mset (\<lambda>x. x = n) (mset inst) = replicate_mset (count_list inst n) n"
    by (induction inst) auto
  have "mset (grouped_prompts (n # ns) inst) =
          replicate_mset (count_list inst n) (prompt n) + mset (grouped_prompts ns inst)"
    by (simp add: grouped_prompts_def)
  then show ?case using Cons.IH[OF d] by (simp add: split one img)
qed

lemma mset_grouped:
  assumes "distinct names" "set inst \<subseteq> set names"
  shows "mset (grouped_prompts names inst) = mset (map prompt inst)"
proof -
  have "filter_mset (\<lambda>x. x \<in> set names) (mset inst) = mset inst"
    using assms(2) by (induction inst) auto
  then show ?thesis using mset_grouped_filter[OF assms(1), of inst] by simp
qed

text \<open>
  C7. With class ids that index \<^verbatim>\<open>self.class_names\<close> (Python indexing), pairwise different
  class names and a non-negative \<^verbatim>\<open>num_queries\<close>, \<^verbatim>\<open>_get_texts\<close>, called as \<^verbatim>\<open>__call__\<close>
  calls it, returns exactly \<^verbatim>\<open>num_queries\<close> strings: the prompts
  \<^verbatim>\<open>"a photo with a {cls_name}"\<close>, one per instance, grouped in the order of
  \<^verbatim>\<open>self.class_names\<close>, cut off at \<^verbatim>\<open>num_queries\<close>, and \<^verbatim>\<open>"an instance photo"\<close> at every
  position after them. \<open>inst\<close> are the class names of the instances.
\<close>

theorem get_texts_prompts:
  assumes "0 \<le> num_queries self"
    and "distinct (class_names self)"
    and "\<forall>c \<in> set classes. - int (length (class_names self)) \<le> c \<and> c < int (length (class_names self))"
  shows "\<exists>texts inst.
           emap (py_index (class_names self)) classes = Inr inst \<and>
           get_texts self classes (init_num_class_obj (class_names self)) = Inr texts \<and>
           int (length texts) = num_queries self \<and>
           texts = take (length texts)
                     (grouped_prompts (class_names self) inst @
                      replicate (length texts) ''an instance photo'') \<and>
           mset (grouped_prompts (class_names self) inst) = mset (map prompt inst) \<and>
           length inst = length classes"
proof -
  from emap_py_index_total[OF assms(3)] obtain inst where
    inst: "emap (py_index (class_names self)) classes = Inr inst" by blast
  have sub: "set inst \<subseteq> set (class_names self)"
    using emap_set[OF inst] py_index_Inr_mem by fastforce
  define texts where
    "texts = fillF (nat (num_queries self)) (grouped_prompts (class_names self) inst)"
  have len: "length texts = nat (num_queries self)" by (simp add: texts_def)
  have "get_texts self classes (init_num_class_obj (class_names self)) = Inr texts"
    unfolding texts_def using inst by (rule get_texts_eq)
  moreover have "int (length texts) = num_queries self"
    using assms(1) len by simp
  moreover have "texts = take (length texts)
                     (grouped_prompts (class_names self) inst @
                      replicate (length texts) ''an instance photo'')"
    unfolding len unfolding texts_def fillF_def ..
  moreover have "length inst = length classes" using inst by (rule emap_Inr_length)
  ultimately show ?thesis
    using inst mset_grouped[OF assms(2) sub] by blast
qed

lemma demo_texts:
  "get_texts (demo_mapper True) [1, - 2] (init_num_class_obj [''cat'', ''dog'']) =
     Inr [''a photo with a cat'', ''a photo with a dog'', ''an instance photo'']"
  by code_simp

theorem get_texts_prompts_witness:
  "\<exists>texts. get_texts (demo_mapper True) [1, - 2]
             (init_num_class_obj (class_names (demo_mapper True))) = Inr texts \<and>
           texts = [''a photo with a cat'', ''a photo with a dog'', ''an instance photo''] \<and>
           int (length texts) = num_queries (demo_mapper True)"
proof -
  have names: "class_names (demo_mapper True) = [''cat'', ''dog'']"
    and nq: "num_queries (demo_mapper True) = 3"
    by (simp_all add: demo_mapper_def init_def)
  have h1: "0 \<le> num_queries (demo_mapper True)" by (simp add: nq)
  have h2: "distinct (class_names (demo_mapper True))" by (simp add: names)
  have h3: "\<forall>c \<in> set [1, - 2]. - int (length (class_names (demo_mapper True))) \<le> c \<and>
              c < int (length (class_names (demo_mapper True)))"
    by (simp add: names)
  from get_texts_prompts [OF h1 h2 h3] obtain texts where
    "get_texts (demo_mapper True) [1, - 2]
       (init_num_class_obj (class_names (demo_mapper True))) = Inr texts"
    and "int (length texts) = num_queries (demo_mapper True)"
    by blast
  then show ?thesis using demo_texts by (simp add: names)
qed

subsection \<open>Rasterised polygons\<close>

lemma any_dim2_shape3:
  "shape a = [h, w, k] \<Longrightarrow> \<exists>b. any_dim2 a = Inr b \<and> shape b = [h, w] \<and> kind b = kind a"
  by (simp add: any_dim2_def ndim_def Let_def)

lemma poly_mask_shape:
  assumes "frPyObjects env polygons h w = Inr rle" "decode env rle = Inr m"
    and "shape m = [h, w] \<or> (\<exists>k. shape m = [h, w, k])"
  shows "\<exists>b. poly_mask env polygons h w = Inr b \<and> shape b = [h, w] \<and> kind b = Torch"
proof -
  let ?m = "as_tensor_uint8 (if length (shape m) < 3 then add_last_axis m else m)"
  have "\<exists>k. shape ?m = [h, w, k]"
    using assms(3) by (auto simp: as_tensor_uint8_def add_last_axis_def)
  then obtain k where "shape ?m = [h, w, k]" by blast
  from any_dim2_shape3[OF this] obtain b where
    "any_dim2 ?m = Inr b" "shape b = [h, w]" "kind b = kind ?m" by blast
  moreover have "kind ?m = Torch" by (simp add: as_tensor_uint8_def)
  ultimately show ?thesis using assms(1,2) by (simp add: poly_mask_def Let_def)
qed

lemma torch_stack_shape:
  assumes "ts \<noteq> []" "\<forall>t \<in> set ts. shape t = s"
  shows "\<exists>r. torch_stack ts = Inr r \<and> shape r = length ts # s \<and> kind r = Torch"
  using assms by (cases ts) (auto simp: torch_stack_def)


lemma emap_Inr_all:
  "emap f xs = Inr ys \<Longrightarrow> y \<in> set ys \<Longrightarrow> \<exists>x \<in> set xs. f x = Inr y"
  by (induction xs arbitrary: ys) (auto split: sum.splits)

text \<open>
  C6. \<^verbatim>\<open>convert_coco_poly_to_mask\<close> returns a torch tensor of shape
  \<open>(len(segmentations), height, width)\<close>; for the empty list it is the empty uint8 tensor of
  shape \<open>(0, height, width)\<close>. The rasterisation is pycocotools': the theorem holds whenever
  \<^verbatim>\<open>frPyObjects\<close> and \<^verbatim>\<open>decode\<close> succeed on each element with an array of shape
  \<open>(height, width)\<close> or \<open>(height, width, k)\<close>, which is what the library documents.
\<close>

theorem convert_coco_poly_to_mask_shape:
  assumes "\<forall>polygons \<in> set segmentations. \<exists>rle m.
             frPyObjects env polygons height width = Inr rle \<and> decode env rle = Inr m \<and>
             (shape m = [height, width] \<or> (\<exists>k. shape m = [height, width, k]))"
  shows "\<exists>t. convert_coco_poly_to_mask env segmentations height width = Inr t \<and>
             kind t = Torch \<and> shape t = [length segmentations, height, width] \<and>
             (segmentations = [] \<longrightarrow> t = Array Torch [0, height, width] UInt8 [])"
proof -
  let ?f = "\<lambda>polygons. poly_mask env polygons height width"
  have each: "\<exists>b. ?f polygons = Inr b \<and> shape b = [height, width] \<and> kind b = Torch"
    if "polygons \<in> set segmentations" for polygons
  proof -
    from assms that have "\<exists>rle m.
             frPyObjects env polygons height width = Inr rle \<and> decode env rle = Inr m \<and>
             (shape m = [height, width] \<or> (\<exists>k. shape m = [height, width, k]))"
      by (rule bspec)
    then obtain rle m where
      "frPyObjects env polygons height width = Inr rle" "decode env rle = Inr m"
      "shape m = [height, width] \<or> (\<exists>k. shape m = [height, width, k])"
      by (elim exE conjE)
    then show ?thesis by (rule poly_mask_shape)
  qed
  have "\<exists>y. ?f x = Inr y" if "x \<in> set segmentations" for x
    using each[OF that] by (elim exE conjE) (rule exI)
  then have "\<exists>ys. emap ?f segmentations = Inr ys" by (rule emap_total)
  then obtain masks where masks: "emap ?f segmentations = Inr masks" ..
  have len: "length masks = length segmentations" using masks by (rule emap_Inr_length)
  have shapes: "\<forall>t \<in> set masks. shape t = [height, width]"
  proof
    fix t assume "t \<in> set masks"
    with masks have "\<exists>x \<in> set segmentations. ?f x = Inr t" by (rule emap_Inr_all)
    then obtain x where x: "x \<in> set segmentations" "?f x = Inr t" ..
    from each[OF x(1)] x(2) show "shape t = [height, width]" by simp
  qed
  show ?thesis
  proof (cases "segmentations = []")
    case True
    then show ?thesis by (simp add: convert_coco_poly_to_mask_def torch_zeros_def)
  next
    case False
    then have ne: "masks \<noteq> []" using len by (cases masks) simp_all
    from torch_stack_shape[OF ne shapes] obtain r where
      r: "torch_stack masks = Inr r" "shape r = length masks # [height, width]" "kind r = Torch"
      by (elim exE conjE)
    have "convert_coco_poly_to_mask env segmentations height width = Inr r"
      unfolding convert_coco_poly_to_mask_def masks using ne r(1) by simp
    then show ?thesis using r(2,3) len False by simp
  qed
qed


lemma demo_stack:
  "convert_coco_poly_to_mask demo_env [[[0]], [[3]]] 2 2 =
     Inr (Array Torch [2, 2, 2] UInt8 [1, 0, 0, 0, 0, 0, 0, 1])"
  by code_simp

theorem convert_coco_poly_to_mask_shape_witness:
  "\<exists>t. convert_coco_poly_to_mask demo_env [[[0]], [[3]]] 2 2 = Inr t \<and>
        t = Array Torch [2, 2, 2] UInt8 [1, 0, 0, 0, 0, 0, 0, 1] \<and> shape t = [2, 2, 2]"
proof -
  have h: "\<forall>polygons \<in> set [[[0]], [[3]]]. \<exists>rle m.
             frPyObjects demo_env polygons 2 2 = Inr rle \<and> decode demo_env rle = Inr m \<and>
             (shape m = [2, 2] \<or> (\<exists>k. shape m = [2, 2, k]))"
    by (simp add: demo_env_def)
  from convert_coco_poly_to_mask_shape [OF h] obtain t where
    "convert_coco_poly_to_mask demo_env [[[0]], [[3]]] 2 2 = Inr t"
    and "shape t = [length [[[0::int]], [[3]]], 2, 2]"
    by (elim exE conjE)
  then show ?thesis using demo_stack by simp
qed

subsection \<open>The accumulating converter\<close>

text \<open>
  C2. \<^verbatim>\<open>convert_coco_poly_to_mask_\<close> creates \<^verbatim>\<open>masks_\<close> once, before the loop, and never
  empties it: the mask of the second element is the rasterisation of the polygons of the
  first and the second element together, not of the second alone.
\<close>

theorem convert_coco_poly_to_mask'_accumulates:
  assumes "poly_mask env [p1] height width = Inr m1"
    and "poly_mask env [p1, p2] height width = Inr m12"
    and "shape m1 = [height, width]" and "shape m12 = [height, width]"
  shows "convert_coco_poly_to_mask' env [FloatList p1, FloatList p2] height width =
           torch_stack [m1, m12]"
proof -
  have "poly_loop env height width [FloatList p1, FloatList p2] [] [] = Inr [m1, m12]"
    using assms by (simp add: add_polygons_def fit_mask_def)
  then show ?thesis by (simp add: convert_coco_poly_to_mask'_def)
qed

lemma demo_acc1:
  "poly_mask demo_env [[0]] 2 2 = Inr (Array Torch [2, 2] UInt8 [1, 0, 0, 0])"
  by code_simp

lemma demo_acc2:
  "poly_mask demo_env [[0], [3]] 2 2 = Inr (Array Torch [2, 2] UInt8 [1, 0, 0, 1])"
  by code_simp

lemma demo_alone:
  "poly_mask demo_env [[3]] 2 2 = Inr (Array Torch [2, 2] UInt8 [0, 0, 0, 1])"
  by code_simp

theorem convert_coco_poly_to_mask'_accumulates_witness:
  "convert_coco_poly_to_mask' demo_env [FloatList [0], FloatList [3]] 2 2 =
     Inr (Array Torch [2, 2, 2] UInt8 [1, 0, 0, 0, 1, 0, 0, 1]) \<and>
   poly_mask demo_env [[3]] 2 2 = Inr (Array Torch [2, 2] UInt8 [0, 0, 0, 1])"
  using convert_coco_poly_to_mask'_accumulates [OF demo_acc1 demo_acc2] demo_alone
  by (simp add: torch_stack_def)

subsection \<open>Regenerated annotations\<close>

lemma new_annotation_ok:
  assumes "i < length boxes" "boxes ! i = [x1, y1, x2, y2]" "i < length labels"
  shows "new_annotation env boxes labels polys i =
           Inr \<lparr>iscrowd = Some 0,
                bbox = [py_float env x1, py_float env y1, py_float env (x2 - x1),
                        py_float env (y2 - y1)],
                category_id = labels ! i,
                segmentation = map FloatList (polys ! i),
                bbox_mode = XYWH_ABS,
                keypoints = None\<rparr>"
  using assms by (simp add: new_annotation_def py_index_def Let_def)

lemma length4: "length xs = 4 \<Longrightarrow> xs = [xs ! 0, xs ! 1, xs ! 2, xs ! 3]"
  by (simp add: list_eq_iff_nth_eq nth_Cons' numeral_eq_Suc less_Suc_eq)

lemma emap_upt_nth:
  assumes "\<And>i. i < n \<Longrightarrow> f i = Inr (g i)"
  shows "emap f [0..<n] = Inr (map g [0..<n])"
  using assms
proof (induction n)
  case 0
  then show ?case by simp
next
  case (Suc n)
  have emap_snoc: "emap f (xs @ [x]) =
      (case emap f xs of Inl e \<Rightarrow> Inl e
       | Inr ys \<Rightarrow> (case f x of Inl e \<Rightarrow> Inl e | Inr y \<Rightarrow> Inr (ys @ [y])))" for xs x
    by (induction xs) (auto split: sum.splits)
  have "emap f [0..<n] = Inr (map g [0..<n])" using Suc by simp
  moreover have "f n = Inr (g n)" using Suc.prems by simp
  ultimately show ?case by (simp add: emap_snoc)
qed

text \<open>
  C3. The annotations regenerated after the copy-paste augmentation agree with the augmented
  masks, boxes and labels: there is one per mask, and the one at index \<open>i\<close> has crowd flag
  0, the box \<open>[x1, y1, x2 - x1, y2 - y1]\<close> of the box \<open>[x1, y1, x2, y2]\<close> at \<open>i\<close> in mode
  \<^verbatim>\<open>XYWH_ABS\<close>, the label at \<open>i\<close> as category and the polygons of the mask at \<open>i\<close> as
  segmentation. It is built whenever the contour search succeeds on each mask and there
  are a box of four numbers and a label for each mask.
\<close>

theorem regenerate_annotations_consistent:
  assumes "\<forall>m \<in> set masks. \<exists>cs. findContours env (prepare_mask m) = Inr cs"
    and "length masks \<le> length boxes" and "length masks \<le> length labels"
    and "\<forall>i < length masks. length (boxes ! i) = 4"
  shows "\<exists>annos polys.
           binary_masks_to_polygons env masks = Inr polys \<and>
           regenerate_annotations env masks boxes labels = Inr annos \<and>
           length annos = length masks \<and>
           (\<forall>i < length masks.
              mask_to_polygons env (masks ! i) = Inr (polys ! i) \<and>
              annos ! i =
                \<lparr>iscrowd = Some 0,
                 bbox = [py_float env (boxes ! i ! 0), py_float env (boxes ! i ! 1),
                         py_float env (boxes ! i ! 2 - boxes ! i ! 0),
                         py_float env (boxes ! i ! 3 - boxes ! i ! 1)],
                 category_id = labels ! i,
                 segmentation = map FloatList (polys ! i),
                 bbox_mode = XYWH_ABS,
                 keypoints = None\<rparr>)"
proof -
  let ?anno = "\<lambda>polys i.
     \<lparr>iscrowd = Some 0,
      bbox = [py_float env (boxes ! i ! 0), py_float env (boxes ! i ! 1),
              py_float env (boxes ! i ! 2 - boxes ! i ! 0),
              py_float env (boxes ! i ! 3 - boxes ! i ! 1)],
      category_id = labels ! i,
      segmentation = map FloatList (polys ! i),
      bbox_mode = XYWH_ABS,
      keypoints = None\<rparr>"
  have "\<exists>y. mask_to_polygons env m = Inr y" if "m \<in> set masks" for m
  proof -
    from assms(1) that have "\<exists>cs. findContours env (prepare_mask m) = Inr cs" by (rule bspec)
    then show ?thesis by (auto simp: mask_to_polygons_def)
  qed
  then have "\<exists>ys. emap (mask_to_polygons env) masks = Inr ys" by (rule emap_total)
  then obtain polys where polys: "emap (mask_to_polygons env) masks = Inr polys" ..
  have len: "length polys = length masks" using polys by (rule emap_Inr_length)
  have each: "new_annotation env boxes labels polys i = Inr (?anno polys i)"
    if "i < length polys" for i
  proof -
    have i: "i < length masks" using that len by simp
    then have b: "boxes ! i = [boxes ! i ! 0, boxes ! i ! 1, boxes ! i ! 2, boxes ! i ! 3]"
      using assms(4) length4 by blast
    show ?thesis
      by (rule new_annotation_ok[OF _ b]) (use i assms(2,3) in simp_all)
  qed
  have ann: "emap (new_annotation env boxes labels polys) [0..<length polys] =
               Inr (map (?anno polys) [0..<length polys])"
    using each by (rule emap_upt_nth)
  have reg: "regenerate_annotations env masks boxes labels =
               Inr (map (?anno polys) [0..<length polys])"
    using polys ann by (simp add: regenerate_annotations_def binary_masks_to_polygons_def)
  have nth: "mask_to_polygons env (masks ! i) = Inr (polys ! i)" if "i < length masks" for i
    using emap_Inr_nth[OF polys that] .
  show ?thesis
    apply (rule exI[of _ "map (?anno polys) [0..<length polys]"])
    apply (rule exI[of _ polys])
    using polys reg len nth by (simp add: binary_masks_to_polygons_def)
qed

lemma demo_regenerate:
  "regenerate_annotations demo_env
     [Array Numpy [1, 2, 2] UInt8 [1, 0, 0, 0]] [[10, 20, 40, 60]] [1] =
   Inr [\<lparr>iscrowd = Some 0, bbox = [10, 20, 30, 40], category_id = 1,
         segmentation = [FloatList [0, 0, 1, 0, 1, 1]], bbox_mode = XYWH_ABS,
         keypoints = None\<rparr>]"
  by (simp add: regenerate_annotations_def binary_masks_to_polygons_def mask_to_polygons_def
      prepare_mask_def demo_env_def squeeze_def astype_uint8_def ndim_def flatten_def
      new_annotation_def py_index_def)

theorem regenerate_annotations_consistent_witness:
  "\<exists>annos. regenerate_annotations demo_env
              [Array Numpy [1, 2, 2] UInt8 [1, 0, 0, 0]] [[10, 20, 40, 60]] [1] = Inr annos \<and>
     annos = [\<lparr>iscrowd = Some 0, bbox = [10, 20, 30, 40], category_id = 1,
               segmentation = [FloatList [0, 0, 1, 0, 1, 1]], bbox_mode = XYWH_ABS,
               keypoints = None\<rparr>] \<and>
     length annos = 1"
proof -
  have h1: "\<forall>m \<in> set [Array Numpy [1, 2, 2] UInt8 [1, 0, 0, 0]].
              \<exists>cs. findContours demo_env (prepare_mask m) = Inr cs"
    by (simp add: demo_env_def)
  have h2: "length [Array Numpy [1, 2, 2] UInt8 [1, 0, 0, 0]] \<le> length [[10, 20, 40, 60 :: int]]"
    and h3: "length [Array Numpy [1, 2, 2] UInt8 [1, 0, 0, 0]] \<le> length [1 :: int]"
    and h4: "\<forall>i < length [Array Numpy [1, 2, 2] UInt8 [1, 0, 0, 0]].
               length ([[10, 20, 40, 60 :: int]] ! i) = 4"
    by simp_all
  from regenerate_annotations_consistent [OF h1 h2 h3 h4] obtain annos where
    "regenerate_annotations demo_env
       [Array Numpy [1, 2, 2] UInt8 [1, 0, 0, 0]] [[10, 20, 40, 60]] [1] = Inr annos"
    and "length annos = length [Array Numpy [1, 2, 2] UInt8 [1, 0, 0, 0]]"
    by (elim exE conjE)
  then show ?thesis using demo_regenerate by simp
qed

subsection \<open>Running \<^verbatim>\<open>__call__\<close> step by step\<close>

lemma deepcopy_sbind:
  "sbind (deepcopy a) f h =
     f (next_addr h)
       (h\<lparr>objs := (objs h)(next_addr h := objs h a), next_addr := Suc (next_addr h)\<rparr>)"
  by (simp add: sbind_def deepcopy_def)

lemma sbind_lift: "sbind (lift m) f h = (case m of Inl e \<Rightarrow> (Inl e, h) | Inr x \<Rightarrow> f x h)"
  by (simp add: sbind_def lift_def split: sum.split)

lemma sbind_getitem:
  "sbind (getitem a k) f h =
     (case objs h a k of None \<Rightarrow> (Inl (KeyError k), h) | Some v \<Rightarrow> f v h)"
  by (simp add: sbind_def getitem_def split: option.split)

lemma sbind_setitem:
  "sbind (setitem a k v) f h = f () (h\<lparr>objs := (objs h)(a := (objs h a)(k \<mapsto> v))\<rparr>)"
  by (simp add: sbind_def setitem_def)

lemma sbind_pop_default:
  "sbind (pop_default a k) f h = f () (h\<lparr>objs := (objs h)(a := (objs h a)(k := None))\<rparr>)"
  by (simp add: sbind_def pop_default_def)

lemma sbind_check_size:
  "sbind (check_size env a img) f h =
     (case check_image_size env (objs h a) img of
        Inl e \<Rightarrow> (Inl e, h)
      | Inr d \<Rightarrow> f () (h\<lparr>objs := (objs h)(a := d)\<rparr>))"
  by (simp add: sbind_def check_size_def split: sum.split)

lemma sbind_get_annotations_empty:
  "objs h a ''annotations'' = None \<or> objs h a ''annotations'' = Some (VAnnos []) \<Longrightarrow>
     sbind (get_annotations a) f h = f [] h"
  by (auto simp: sbind_def get_annotations_def)



lemma sbind_Inl: "fst (m h) = Inl e \<Longrightarrow> fst (sbind m f h) = Inl e"
  by (cases "m h") (simp add: sbind_def)

lemma size_check_onlyD:
  "size_check_only env \<Longrightarrow> check_image_size env d img = Inr d' \<Longrightarrow>
     k \<noteq> ''width'' \<Longrightarrow> k \<noteq> ''height'' \<Longrightarrow> d' k = d k"
  unfolding size_check_only_def by blast

lemma load_without_annotations:
  assumes sc: "size_check_only env"
    and an: "objs h dd ''annotations'' = None \<or> objs h dd ''annotations'' = Some (VAnnos [])"
  shows "\<exists>e. fst (load_and_augment env self dd h) = Inl e \<and>
           (\<forall>f img d. objs h dd ''file_name'' = Some f \<longrightarrow>
              read_image env f (img_format self) = Inr img \<longrightarrow>
              check_image_size env (objs h dd) img = Inr d \<longrightarrow>
              e = UnboundLocalError ''masks'')"
proof (cases "objs h dd ''file_name''")
  case None
  then show ?thesis by (simp add: load_and_augment_def sbind_getitem)
next
  case (Some f)
  show ?thesis
  proof (cases "read_image env f (img_format self)")
    case (Inl e)
    then show ?thesis using Some by (simp add: load_and_augment_def sbind_getitem sbind_lift)
  next
    case (Inr img)
    show ?thesis
    proof (cases "check_image_size env (objs h dd) img")
      case (Inl e)
      then show ?thesis
        using Some Inr by (simp add: load_and_augment_def sbind_getitem sbind_lift sbind_check_size)
    next
      case d: (Inr d)
      have "d ''annotations'' = objs h dd ''annotations''"
        using sc d by (rule size_check_onlyD) simp_all
      then have an': "d ''annotations'' = None \<or> d ''annotations'' = Some (VAnnos [])"
        using an by simp
      let ?h = "h\<lparr>objs := (objs h)(dd := d)\<rparr>"
      have an'': "objs ?h dd ''annotations'' = None \<or> objs ?h dd ''annotations'' = Some (VAnnos [])"
        using an' by simp
      have "fst (load_and_augment env self dd h) = Inl (UnboundLocalError ''masks'')"
        using Some Inr d
        by (simp add: load_and_augment_def sbind_getitem sbind_lift sbind_check_size
            sbind_get_annotations_empty[OF an''] copy_paste_inputs_def copy_paste_def Let_def)
      then show ?thesis by simp
    qed
  qed
qed

text \<open>
  C8. When the record has no \<^verbatim>\<open>"annotations"\<close> key or an empty annotation list, \<^verbatim>\<open>__call__\<close>
  returns no result: it raises. When the image is read and its size checked without an
  error, the exception is the unbound local \<^verbatim>\<open>masks\<close> at the copy-paste call, since the
  three locals are bound only for a non-empty annotation list. (\<^verbatim>\<open>check_image_size\<close> is
  taken to touch no key but \<^verbatim>\<open>"width"\<close> and \<^verbatim>\<open>"height"\<close>.)
\<close>

theorem call_without_annotations:
  assumes "size_check_only env"
    and "objs h a ''annotations'' = None \<or> objs h a ''annotations'' = Some (VAnnos [])"
  shows "\<exists>e. fst (call env self a h) = Inl e \<and>
           (\<forall>f img d. objs h a ''file_name'' = Some f \<longrightarrow>
              read_image env f (img_format self) = Inr img \<longrightarrow>
              check_image_size env (objs h a) img = Inr d \<longrightarrow>
              e = UnboundLocalError ''masks'')"
proof -
  let ?dd = "next_addr h"
  let ?h = "h\<lparr>objs := (objs h)(?dd := objs h a), next_addr := Suc ?dd\<rparr>"
  have an: "objs ?h ?dd ''annotations'' = None \<or> objs ?h ?dd ''annotations'' = Some (VAnnos [])"
    using assms(2) by simp
  from load_without_annotations[OF assms(1) an, of self] obtain e where
    e: "fst (load_and_augment env self ?dd ?h) = Inl e"
    and u: "\<forall>f img d. objs ?h ?dd ''file_name'' = Some f \<longrightarrow>
              read_image env f (img_format self) = Inr img \<longrightarrow>
              check_image_size env (objs ?h ?dd) img = Inr d \<longrightarrow>
              e = UnboundLocalError ''masks''"
    by (elim exE conjE)
  have "fst (call env self a h) = Inl e"
    unfolding call_def deepcopy_sbind using e by (rule sbind_Inl)
  moreover have "\<forall>f img d. objs h a ''file_name'' = Some f \<longrightarrow>
              read_image env f (img_format self) = Inr img \<longrightarrow>
              check_image_size env (objs h a) img = Inr d \<longrightarrow>
              e = UnboundLocalError ''masks''"
    using u by simp
  ultimately show ?thesis by (intro exI conjI)
qed

lemma demo_size_check_only: "size_check_only demo_env"
  by (simp add: size_check_only_def demo_env_def)

theorem call_without_annotations_witness:
  "fst (call demo_env (demo_mapper True) 0 (demo_store [])) = Inl (UnboundLocalError ''masks'')"
proof -
  have an: "objs (demo_store []) 0 ''annotations'' = None \<or>
            objs (demo_store []) 0 ''annotations'' = Some (VAnnos [])"
    by (simp add: demo_store_def)
  from call_without_annotations [OF demo_size_check_only an, of "demo_mapper True"]
  obtain e where e: "fst (call demo_env (demo_mapper True) 0 (demo_store [])) = Inl e"
    and u: "\<forall>f img d. objs (demo_store []) 0 ''file_name'' = Some f \<longrightarrow>
              read_image demo_env f (img_format (demo_mapper True)) = Inr img \<longrightarrow>
              check_image_size demo_env (objs (demo_store []) 0) img = Inr d \<longrightarrow>
              e = UnboundLocalError ''masks''"
    by (elim exE conjE)
  have "objs (demo_store []) 0 ''file_name'' = Some (VStr ''a.png'')"
    by (simp add: demo_store_def)
  moreover have "read_image demo_env (VStr ''a.png'') (img_format (demo_mapper True)) =
      Inr (Array Numpy [2, 2, 3] UInt8 [1, 2, 3, 4, 5, 6, 7, 8, 9, 10, 11, 12])"
    by (simp add: demo_env_def)
  moreover have "check_image_size demo_env (objs (demo_store []) 0)
      (Array Numpy [2, 2, 3] UInt8 [1, 2, 3, 4, 5, 6, 7, 8, 9, 10, 11, 12]) =
      Inr ((objs (demo_store []) 0)(''width'' \<mapsto> VInt 2, ''height'' \<mapsto> VInt 2))"
    by (simp add: demo_env_def)
  ultimately have "e = UnboundLocalError ''masks''" using u by blast
  then show ?thesis using e by simp
qed

subsection \<open>The caller's record\<close>

lemma writes_only_lift: "writes_only a (lift m)"
  by (simp add: writes_only_def lift_def)

lemma writes_only_getitem: "writes_only a (getitem a k)"
  by (simp add: writes_only_def getitem_def)

lemma writes_only_setitem: "writes_only a (setitem a k v)"
  by (simp add: writes_only_def setitem_def)

lemma writes_only_pop_default: "writes_only a (pop_default a k)"
  by (simp add: writes_only_def pop_default_def)

lemma writes_only_check_size: "writes_only a (check_size env a img)"
  by (simp add: writes_only_def check_size_def split: sum.split)

lemma writes_only_get_annotations: "writes_only a (get_annotations a)"
  by (simp add: writes_only_def get_annotations_def)

lemma writes_only_pop_annotations: "writes_only a (pop_annotations a)"
  by (simp add: writes_only_def pop_annotations_def split: option.split val.split)

lemma writes_only_sbind:
  assumes "writes_only a m" and "\<And>x. writes_only a (f x)"
  shows "writes_only a (sbind m f)"
proof -
  have "next_addr (snd (sbind m f h)) = next_addr h \<and>
        (\<forall>p. p \<noteq> a \<longrightarrow> objs (snd (sbind m f h)) p = objs h p)" for h
  proof (cases "m h")
    case (Pair r h')
    have m: "next_addr h' = next_addr h" "\<And>p. p \<noteq> a \<Longrightarrow> objs h' p = objs h p"
      using assms(1) Pair unfolding writes_only_def by (metis snd_conv)+
    show ?thesis
    proof (cases r)
      case (Inl e)
      then show ?thesis using Pair m by (simp add: sbind_def)
    next
      case (Inr x)
      have f: "next_addr (snd (f x h')) = next_addr h'"
        "\<And>p. p \<noteq> a \<Longrightarrow> objs (snd (f x h')) p = objs h' p"
        using assms(2)[of x] unfolding writes_only_def by simp_all
      show ?thesis using Pair Inr m f by (simp add: sbind_def)
    qed
  qed
  then show ?thesis unfolding writes_only_def by blast
qed

lemma writes_only_if:
  "(c \<Longrightarrow> writes_only a m) \<Longrightarrow> (\<not> c \<Longrightarrow> writes_only a n) \<Longrightarrow> writes_only a (if c then m else n)"
  by simp

lemma writes_only_prod:
  "(\<And>x y. writes_only a (f x y)) \<Longrightarrow> writes_only a (case p of (x, y) \<Rightarrow> f x y)"
  by (cases p) simp

lemma writes_only_instances_step:
  "writes_only a (instances_step env a transforms image_shape)"
proof -
  let ?m = "sbind (get_annotations a) (\<lambda>annos.
           sbind (setitem a ''annotations''
                    (VAnnos (map (\<lambda>anno. anno\<lparr>keypoints := None\<rparr>) annos))) (\<lambda>_.
           sbind (pop_annotations a) (\<lambda>popped.
             lift (ebind (build_instances env transforms image_shape popped) (\<lambda>instances.
                     Inr (Some instances))))))"
  have m: "writes_only a ?m"
    by (intro writes_only_sbind writes_only_get_annotations writes_only_setitem
        writes_only_pop_annotations writes_only_lift)
  have "next_addr (snd (instances_step env a transforms image_shape h)) = next_addr h \<and>
        (\<forall>p. p \<noteq> a \<longrightarrow> objs (snd (instances_step env a transforms image_shape h)) p = objs h p)"
    for h
    using m unfolding writes_only_def instances_step_def by simp
  then show ?thesis unfolding writes_only_def by blast
qed

lemma writes_only_let: "writes_only a (f x) \<Longrightarrow> writes_only a (Let x f)"
  by simp

lemmas writes_only_intros =
  writes_only_if writes_only_sbind writes_only_prod writes_only_let writes_only_pop_default
  writes_only_lift writes_only_instances_step writes_only_setitem writes_only_getitem
  writes_only_check_size writes_only_get_annotations writes_only_pop_annotations

lemma writes_only_load_and_augment: "writes_only dd (load_and_augment env self dd)"
  unfolding load_and_augment_def by (intro writes_only_intros)

lemma frame_after_deepcopy:
  assumes "\<And>dd. writes_only dd (f dd)" and "p \<noteq> next_addr h"
  shows "objs (snd (sbind (deepcopy a) f h)) p = objs h p"
  using assms(1)[of "next_addr h"] assms(2)
  unfolding writes_only_def deepcopy_sbind by simp

text \<open>
  C9. \<^verbatim>\<open>__call__\<close> never changes a record that existed before the call, the caller's
  record among them, whether it returns or raises: every write goes to the copy made by
  the first line. (The store holds the dataset records; the library calls get the copy or
  values read from it.)
\<close>

theorem call_leaves_records_unchanged:
  assumes "p < next_addr h"
  shows "objs (snd (call env self a h)) p = objs h p"
proof -
  have "p \<noteq> next_addr h" using assms by simp
  then show ?thesis
    unfolding call_def
    by (rule frame_after_deepcopy[rotated]) (intro writes_only_intros writes_only_load_and_augment)
qed

lemma demo_call_returns:
  "fst (call demo_env (demo_mapper True) 0 (demo_store demo_annos)) = Inr 1"
  by code_simp

theorem call_leaves_records_unchanged_witness:
  "fst (call demo_env (demo_mapper True) 0 (demo_store demo_annos)) = Inr 1 \<and>
   objs (snd (call demo_env (demo_mapper True) 0 (demo_store demo_annos))) 0 =
     objs (demo_store demo_annos) 0"
proof -
  have h: "0 < next_addr (demo_store demo_annos)" by (simp add: demo_store_def)
  from call_leaves_records_unchanged [OF h] demo_call_returns show ?thesis by simp
qed

subsection \<open>Inference mode\<close>

lemma sbind_get_annotations:
  "sbind (get_annotations a) f h =
     (case fst (get_annotations a h) of Inl e \<Rightarrow> (Inl e, h) | Inr annos \<Rightarrow> f annos h)"
  by (simp add: sbind_def get_annotations_def split: sum.split)

lemma kind_as_tensor: "kind (as_tensor x) = Torch"
  by (simp add: as_tensor_def)

lemma load_and_augment_keys:
  assumes sc: "size_check_only env"
    and ok: "load_and_augment env self dd h = (Inr ts, h2)"
  shows "(\<exists>x. objs h2 dd ''image'' = Some (VArray x) \<and> kind x = Torch) \<and>
         (\<exists>x. objs h2 dd ''padding_mask'' = Some (VArray x) \<and> kind x = Torch) \<and>
         (\<exists>annos. objs h2 dd ''annotations'' = Some (VAnnos annos)) \<and>
         (\<forall>k. k \<noteq> ''annotations'' \<longrightarrow> k \<noteq> ''image'' \<longrightarrow> k \<noteq> ''padding_mask'' \<longrightarrow>
              k \<noteq> ''width'' \<longrightarrow> k \<noteq> ''height'' \<longrightarrow> objs h2 dd k = objs h dd k)"
  using ok
  by (auto simp: load_and_augment_def sbind_getitem sbind_lift sbind_check_size
      sbind_get_annotations sbind_setitem lift_def Let_def kind_as_tensor
      size_check_onlyD[OF sc]
      split: option.splits sum.splits prod.splits)

lemma snd_deepcopy:
  "snd (deepcopy a h) =
     h\<lparr>objs := (objs h)(next_addr h := objs h a), next_addr := Suc (next_addr h)\<rparr>"
  by (simp add: deepcopy_def)

text \<open>
  C10. In a mapper with \<^verbatim>\<open>is_train\<close> false, \<^verbatim>\<open>__call__\<close> returns as soon as the common part
  (lines 255 to 296) has succeeded: no instances or texts are built. The record returned
  holds the tensors \<^verbatim>\<open>"image"\<close> and \<^verbatim>\<open>"padding_mask"\<close>, has no \<^verbatim>\<open>"annotations"\<close> key, and under
  \<^verbatim>\<open>"instances"\<close>, \<^verbatim>\<open>"orig_shape"\<close>, \<^verbatim>\<open>"task"\<close>, \<^verbatim>\<open>"text"\<close> and \<^verbatim>\<open>"thing_ids"\<close> it holds what the
  caller's record held: nothing, for a record of the dataset format.
\<close>

theorem call_inference:
  assumes "\<not> is_train self" and "size_check_only env"
    and "load_and_augment env self (next_addr h) (snd (deepcopy a h)) = (Inr ts, h2)"
  shows "\<exists>h'. call env self a h = (Inr (next_addr h), h') \<and>
           (\<exists>x. objs h' (next_addr h) ''image'' = Some (VArray x) \<and> kind x = Torch) \<and>
           (\<exists>x. objs h' (next_addr h) ''padding_mask'' = Some (VArray x) \<and> kind x = Torch) \<and>
           objs h' (next_addr h) ''annotations'' = None \<and>
           (\<forall>k \<in> {''instances'', ''orig_shape'', ''task'', ''text'', ''thing_ids''}.
              objs h' (next_addr h) k = objs h a k)"
proof -
  let ?dd = "next_addr h"
  let ?h1 = "snd (deepcopy a h)"
  let ?h' = "h2\<lparr>objs := (objs h2)(?dd := (objs h2 ?dd)(''annotations'' := None))\<rparr>"
  have keys:
    "(\<exists>x. objs h2 ?dd ''image'' = Some (VArray x) \<and> kind x = Torch) \<and>
     (\<exists>x. objs h2 ?dd ''padding_mask'' = Some (VArray x) \<and> kind x = Torch) \<and>
     (\<exists>annos. objs h2 ?dd ''annotations'' = Some (VAnnos annos)) \<and>
     (\<forall>k. k \<noteq> ''annotations'' \<longrightarrow> k \<noteq> ''image'' \<longrightarrow> k \<noteq> ''padding_mask'' \<longrightarrow>
          k \<noteq> ''width'' \<longrightarrow> k \<noteq> ''height'' \<longrightarrow> objs h2 ?dd k = objs ?h1 ?dd k)"
    using assms(2,3) by (rule load_and_augment_keys)
  have copy: "objs ?h1 ?dd = objs h a" by (simp add: snd_deepcopy)
  have run: "call env self a h = (Inr ?dd, ?h')"
    using assms(1,3) unfolding call_def deepcopy_sbind snd_deepcopy
    by (cases ts) (simp add: sbind_def pop_default_def lift_def)
  have "(\<exists>x. objs ?h' ?dd ''image'' = Some (VArray x) \<and> kind x = Torch)"
    using keys by simp
  moreover have "(\<exists>x. objs ?h' ?dd ''padding_mask'' = Some (VArray x) \<and> kind x = Torch)"
    using keys by simp
  moreover have "objs ?h' ?dd ''annotations'' = None" by simp
  moreover have "\<forall>k \<in> {''instances'', ''orig_shape'', ''task'', ''text'', ''thing_ids''}.
              objs ?h' ?dd k = objs h a k"
    using keys copy by simp
  ultimately show ?thesis using run by blast
qed

lemma demo_load:
  "fst (load_and_augment demo_env (demo_mapper False) 1 (snd (deepcopy 0 (demo_store demo_annos)))) =
     Inr ((), [2, 2])"
  by code_simp

theorem call_inference_witness:
  "\<exists>h'. call demo_env (demo_mapper False) 0 (demo_store demo_annos) = (Inr 1, h') \<and>
         (\<exists>x. objs h' 1 ''image'' = Some (VArray x) \<and> kind x = Torch) \<and>
         (\<exists>x. objs h' 1 ''padding_mask'' = Some (VArray x) \<and> kind x = Torch) \<and>
         objs h' 1 ''annotations'' = None \<and> objs h' 1 ''instances'' = None \<and>
         objs h' 1 ''task'' = None \<and> objs h' 1 ''text'' = None \<and>
         objs h' 1 ''thing_ids'' = None"
proof -
  have n: "next_addr (demo_store demo_annos) = 1" by (simp add: demo_store_def)
  have h1: "\<not> is_train (demo_mapper False)" by (simp add: demo_mapper_def init_def)
  have h3: "load_and_augment demo_env (demo_mapper False) (next_addr (demo_store demo_annos))
              (snd (deepcopy 0 (demo_store demo_annos))) =
            (Inr ((), [2, 2]),
             snd (load_and_augment demo_env (demo_mapper False) 1
                    (snd (deepcopy 0 (demo_store demo_annos)))))"
    unfolding n using demo_load by (simp add: prod_eq_iff)
  from call_inference [OF h1 demo_size_check_only h3] obtain h' where r:
    "call demo_env (demo_mapper False) 0 (demo_store demo_annos) = (Inr 1, h') \<and>
     (\<exists>x. objs h' 1 ''image'' = Some (VArray x) \<and> kind x = Torch) \<and>
     (\<exists>x. objs h' 1 ''padding_mask'' = Some (VArray x) \<and> kind x = Torch) \<and>
     objs h' 1 ''annotations'' = None \<and>
     (\<forall>k \<in> {''instances'', ''orig_shape'', ''task'', ''text'', ''thing_ids''}.
        objs h' 1 k = objs (demo_store demo_annos) 0 k)"
    unfolding n ..
  then have "objs h' 1 ''instances'' = None" "objs h' 1 ''task'' = None"
    "objs h' 1 ''text'' = None" "objs h' 1 ''thing_ids'' = None"
    by (simp_all add: demo_store_def)
  then show ?thesis using r by (intro exI[of _ h']) simp
qed

subsection \<open>Training mode\<close>








end
